theory Spec2Isabelle
  imports Complex_Main "HOL-Library.Log_Nat" "HOL-Library.AList"
begin

section \<open>JavaScript values\<close>

text \<open>
  The library is TypeScript running on Node.js. Values that flow through the engine are
  modelled by \<open>jsval\<close>. A number is an IEEE-754 double: \<open>Fin q\<close> is the finite double whose
  exact value is the rational \<open>q\<close> (the two zeros are identified: nothing in the engine
  tells them apart). \<open>Obj n\<close> is a reference to a plain object, identified by \<open>n\<close>.
  A \<open>string\<close> is the list of the code units of a JavaScript string, restricted to the
  8-bit range.
\<close>

datatype jsnum = NaN | PosInf | NegInf | Fin rat

datatype jsval = Undefined | Null | Bool bool | Num jsnum | Str string | Obj nat

datatype error_type = TypeError | FormatError | RequiredError | TransformError

text \<open>
  \<open>ValidationErrorResult\<close> of the source; the class \<open>ValidationError\<close> carries the same
  fields, so one record serves for both.
\<close>

record ValidationErrorResult =
  err_field :: string
  err_message :: string
  err_value :: jsval
  err_expected :: "string option"
  err_received :: "string option"
  err_envVarName :: string
  err_type :: error_type

text \<open>
  What a \<open>throw\<close> can carry: an instance of the library's \<open>ValidationError\<close>, any other
  \<open>Error\<close> (with its message), or a value that is not an \<open>Error\<close>. A computation that may
  throw returns \<open>thrown + 'a\<close>, with \<open>Inl\<close> for the exception.
\<close>

datatype thrown =
    ThrowValidationError ValidationErrorResult
  | ThrowError string
  | ThrowOther

type_synonym 'a outcome = "thrown + 'a"

text \<open>
  The constructor of \<open>ValidationError\<close>:
  \<open>(field, message, value, expected?, received?, envVarName?, type = 'FormatError')\<close>,
  with \<open>this.envVarName = envVarName || field\<close>.
\<close>

definition new_ValidationError ::
  "string \<Rightarrow> string \<Rightarrow> jsval \<Rightarrow> string option \<Rightarrow> string option \<Rightarrow> string option
     \<Rightarrow> error_type option \<Rightarrow> ValidationErrorResult" where
  "new_ValidationError fld msg v expected received envVarName ty =
     \<lparr> err_field = fld,
       err_message = msg,
       err_value = v,
       err_expected = expected,
       err_received = received,
       err_envVarName = (case envVarName of
                           None \<Rightarrow> fld
                         | Some n \<Rightarrow> if n = [] then fld else n),
       err_type = (case ty of None \<Rightarrow> FormatError | Some t \<Rightarrow> t) \<rparr>"

section \<open>Strings and numbers of the platform\<close>

definition is_js_whitespace :: "char \<Rightarrow> bool" where
  "is_js_whitespace c = ((of_char c :: nat) \<in> {9, 10, 11, 12, 13, 32, 160})"

definition trim :: "string \<Rightarrow> string" where
  "trim s = rev (dropWhile is_js_whitespace (rev (dropWhile is_js_whitespace s)))"

text \<open>
  Case mapping on the letters \<open>a\<close> to \<open>z\<close>, which differ from \<open>A\<close> to \<open>Z\<close> in the bit of
  weight 32; other characters are left as they are.
\<close>

definition upper_char :: "char \<Rightarrow> char" where
  "upper_char c =
     (case c of Char b0 b1 b2 b3 b4 b5 b6 b7 \<Rightarrow>
        let n = (of_char c :: nat)
        in if 97 \<le> n \<and> n \<le> 122 then Char b0 b1 b2 b3 b4 False b6 b7 else c)"

definition lower_char :: "char \<Rightarrow> char" where
  "lower_char c =
     (case c of Char b0 b1 b2 b3 b4 b5 b6 b7 \<Rightarrow>
        let n = (of_char c :: nat)
        in if 65 \<le> n \<and> n \<le> 90 then Char b0 b1 b2 b3 b4 True b6 b7 else c)"

definition toUpperCase :: "string \<Rightarrow> string" where
  "toUpperCase s = map upper_char s"

definition toLowerCase :: "string \<Rightarrow> string" where
  "toLowerCase s = map lower_char s"

fun join :: "string \<Rightarrow> string list \<Rightarrow> string" where
  "join sep [] = []"
| "join sep [x] = x"
| "join sep (x # y # ys) = x @ sep @ join sep (y # ys)"

definition is_digit :: "char \<Rightarrow> bool" where
  "is_digit c = (let n = (of_char c :: nat) in 48 \<le> n \<and> n \<le> 57)"

definition digit_val :: "char \<Rightarrow> nat" where
  "digit_val c = of_char c - 48"

definition digits_value :: "string \<Rightarrow> nat" where
  "digits_value ds = foldl (\<lambda>acc c. 10 * acc + digit_val c) 0 ds"

subsection \<open>Rounding to a double\<close>

text \<open>
  \<open>round_double q\<close> is the Number value for the mathematical value \<open>q\<close>: the nearest
  binary64 value, ties to even, \<open>\<plusminus>\<infinity>\<close> from \<open>2^1024\<close> on. It gives the meaning of a
  numeric literal of the source text (\<open>12.34\<close> is \<open>round_double (1234 / 100)\<close>) and of the
  digits that \<open>parseFloat\<close> and \<open>parseInt\<close> read.
\<close>

definition floor_log2 :: "rat \<Rightarrow> int" where
  "floor_log2 a =
     (let e = bitlen (fst (quotient_of a)) - bitlen (snd (quotient_of a))
      in if power_int 2 e \<le> a then e else e - 1)"

definition round_half_even :: "rat \<Rightarrow> int" where
  "round_half_even x =
     (let f = \<lfloor>x\<rfloor>; d = x - of_int f
      in if d < 1 / 2 then f else if 1 / 2 < d then f + 1 else if even f then f else f + 1)"

definition round_double :: "rat \<Rightarrow> jsnum" where
  "round_double q =
     (if q = 0 then Fin 0
      else let a = \<bar>q\<bar>;
               e = max (floor_log2 a) (- 1022);
               ulp = power_int 2 (e - 52);
               r = of_int (round_half_even (a / ulp)) * ulp
           in if 2 ^ 1024 \<le> r then (if 0 < q then PosInf else NegInf)
              else Fin (if 0 < q then r else - r))"

definition isNaN :: "jsnum \<Rightarrow> bool" where
  "isNaN n = (n = NaN)"

definition isFinite :: "jsnum \<Rightarrow> bool" where
  "isFinite n = (case n of Fin q \<Rightarrow> True | _ \<Rightarrow> False)"

definition isInteger :: "jsnum \<Rightarrow> bool" where
  "isInteger n = (case n of Fin q \<Rightarrow> q = of_int \<lfloor>q\<rfloor> | _ \<Rightarrow> False)"

text \<open>The relational operator \<open><\<close> on numbers: false as soon as one side is NaN.\<close>

fun js_less :: "jsnum \<Rightarrow> jsnum \<Rightarrow> bool" where
  "js_less NaN _ = False"
| "js_less _ NaN = False"
| "js_less (Fin a) (Fin b) = (a < b)"
| "js_less NegInf NegInf = False"
| "js_less NegInf _ = True"
| "js_less _ NegInf = False"
| "js_less PosInf _ = False"
| "js_less _ PosInf = True"

subsection \<open>parseFloat and parseInt\<close>

text \<open>
  \<open>parseFloat\<close> of ECMA-262: leading white space is skipped, then the longest prefix that
  is a \<open>StrDecimalLiteral\<close> is read (an optional sign, then \<open>Infinity\<close>, or digits with an
  optional fraction, or a fraction alone, each with an optional exponent); what follows the
  prefix is ignored. With no such prefix the result is NaN.
\<close>

definition parse_exponent :: "string \<Rightarrow> int" where
  "parse_exponent r =
     (case r of
        [] \<Rightarrow> 0
      | c # r1 \<Rightarrow>
          if c = CHR ''e'' \<or> c = CHR ''E'' then
            (let neg = (r1 \<noteq> [] \<and> hd r1 = CHR ''-'');
                 r2 = (if r1 \<noteq> [] \<and> (hd r1 = CHR ''-'' \<or> hd r1 = CHR ''+'') then tl r1 else r1);
                 ds = takeWhile is_digit r2
             in if ds = [] then 0
                else if neg then - int (digits_value ds) else int (digits_value ds))
          else 0)"

definition parseFloat :: "string \<Rightarrow> jsnum" where
  "parseFloat inputString =
     (let trimmed = dropWhile is_js_whitespace inputString;
          neg = (trimmed \<noteq> [] \<and> hd trimmed = CHR ''-'');
          body = (if trimmed \<noteq> [] \<and> (hd trimmed = CHR ''-'' \<or> hd trimmed = CHR ''+'')
                  then tl trimmed else trimmed)
      in if take 8 body = ''Infinity'' then (if neg then NegInf else PosInf)
         else
           let ip = takeWhile is_digit body;
               r1 = dropWhile is_digit body;
               has_dot = (r1 \<noteq> [] \<and> hd r1 = CHR ''.'');
               fp = (if has_dot then takeWhile is_digit (tl r1) else []);
               r2 = (if has_dot then dropWhile is_digit (tl r1) else r1)
           in if ip = [] \<and> fp = [] then NaN
              else
                let q = of_nat (digits_value (ip @ fp)) / 10 ^ length fp
                          * power_int 10 (parse_exponent r2)
                in round_double (if neg then - q else q))"

text \<open>\<open>parseInt(s, 10)\<close>: white space, an optional sign, then the longest run of digits.\<close>

definition parseInt10 :: "string \<Rightarrow> jsnum" where
  "parseInt10 inputString =
     (let trimmed = dropWhile is_js_whitespace inputString;
          neg = (trimmed \<noteq> [] \<and> hd trimmed = CHR ''-'');
          body = (if trimmed \<noteq> [] \<and> (hd trimmed = CHR ''-'' \<or> hd trimmed = CHR ''+'')
                  then tl trimmed else trimmed);
          ds = takeWhile is_digit body
      in if ds = [] then NaN
         else round_double (if neg then - of_nat (digits_value ds) else of_nat (digits_value ds)))"

subsection \<open>What the engine takes from its host\<close>

text \<open>
  The engine calls into the JavaScript runtime for four things that are not part of the
  repository: \<open>Number.prototype.toString\<close>, the \<open>URL\<close> constructor (which throws or gives
  a record with a protocol and a host name), \<open>JSON.parse\<close> (of which only the thrown
  message is used) and \<open>process.env\<close>. They are parameters of the model.
\<close>

record URL =
  url_protocol :: string
  url_hostname :: string

record platform =
  Number_toString :: "jsnum \<Rightarrow> string"
  URL_parse :: "string \<Rightarrow> URL option"
  JSON_parse :: "string \<Rightarrow> string + unit"
  process_env :: "string \<rightharpoonup> jsval"

definition typeof :: "jsval \<Rightarrow> string" where
  "typeof v =
     (case v of
        Undefined \<Rightarrow> ''undefined''
      | Null \<Rightarrow> ''object''
      | Bool b \<Rightarrow> ''boolean''
      | Num n \<Rightarrow> ''number''
      | Str s \<Rightarrow> ''string''
      | Obj r \<Rightarrow> ''object'')"

text \<open>\<open>String(v)\<close>, which is also \<open>v.toString()\<close> where that method exists.\<close>

definition js_String :: "platform \<Rightarrow> jsval \<Rightarrow> string" where
  "js_String P v =
     (case v of
        Undefined \<Rightarrow> ''undefined''
      | Null \<Rightarrow> ''null''
      | Bool b \<Rightarrow> (if b then ''true'' else ''false'')
      | Num n \<Rightarrow> Number_toString P n
      | Str s \<Rightarrow> s
      | Obj r \<Rightarrow> ''[object Object]'')"

text \<open>\<open>Array.prototype.join\<close> renders \<open>undefined\<close> and \<open>null\<close> as the empty string.\<close>

definition array_join :: "platform \<Rightarrow> string \<Rightarrow> jsval list \<Rightarrow> string" where
  "array_join P sep vs =
     join sep (map (\<lambda>v. if v = Undefined \<or> v = Null then [] else js_String P v) vs)"

definition truthy :: "jsval \<Rightarrow> bool" where
  "truthy v =
     (case v of
        Undefined \<Rightarrow> False
      | Null \<Rightarrow> False
      | Bool b \<Rightarrow> b
      | Num n \<Rightarrow> n \<noteq> NaN \<and> n \<noteq> Fin 0
      | Str s \<Rightarrow> s \<noteq> []
      | Obj r \<Rightarrow> True)"

section \<open>Type coercion\<close>

datatype EnvType =
  T_string | T_number | T_boolean | T_url | T_port | T_email | T_ip | T_json | T_regex

definition coerceValue :: "platform \<Rightarrow> jsval \<Rightarrow> EnvType \<Rightarrow> jsval outcome" where
  "coerceValue P v ty =
     (if v = Undefined \<or> v = Null then Inr v
      else if typeof v = ''object'' \<and> v \<noteq> Null then
        Inl (ThrowValidationError
          (new_ValidationError ''value'' ''Cannot coerce object to primitive type'' v
             (Some ''string, number, or boolean'') (Some ''object'') (Some ''TypeError'') None))
      else
        case ty of
          T_string \<Rightarrow> Inr (case v of Str s \<Rightarrow> Str (trim s) | _ \<Rightarrow> Str (js_String P v))
        | T_number \<Rightarrow>
            (case v of
               Num n \<Rightarrow>
                 if isNaN n \<or> \<not> isFinite n then
                   Inl (ThrowValidationError
                     (new_ValidationError ''value'' ''Number value is invalid (NaN or infinite)'' v
                        (Some ''valid number'') None None None))
                 else Inr v
             | _ \<Rightarrow>
                 let numValue = parseFloat (js_String P v)
                 in if isNaN numValue \<or> \<not> isFinite numValue then
                      Inl (ThrowValidationError
                        (new_ValidationError ''value'' ''Cannot coerce to number'' v
                           (Some ''numeric string'') (Some (js_String P v)) (Some ''TypeError'') None))
                    else Inr (Num numValue))
        | T_boolean \<Rightarrow>
            (case v of
               Bool b \<Rightarrow> Inr v
             | _ \<Rightarrow>
                 let stringValue = trim (toLowerCase (js_String P v))
                 in if stringValue \<in> set [''true'', ''1'', ''yes'', ''on''] then Inr (Bool True)
                    else if stringValue \<in> set [''false'', ''0'', ''no'', ''off''] then Inr (Bool False)
                    else
                      Inl (ThrowValidationError
                        (new_ValidationError ''value'' ''Cannot coerce to boolean'' v
                           (Some ''true/false/1/0/yes/no/on/off'') (Some stringValue)
                           (Some ''TypeError'') None)))
        | T_port \<Rightarrow>
            (case v of
               Num n \<Rightarrow>
                 if isNaN n \<or> \<not> isFinite n then
                   Inl (ThrowValidationError
                     (new_ValidationError ''value'' ''Port value is invalid (NaN or infinite)'' v
                        (Some ''valid number'') None None None))
                 else Inr v
             | _ \<Rightarrow>
                 let numValue = parseFloat (js_String P v)
                 in if isNaN numValue \<or> \<not> isFinite numValue then
                      Inl (ThrowValidationError
                        (new_ValidationError ''value'' ''Cannot coerce to port number'' v
                           (Some ''numeric string'') (Some (js_String P v)) (Some ''TypeError'') None))
                    else Inr (Num numValue))
        | _ \<Rightarrow> Inr v)"

section \<open>Regular expressions of the source\<close>

text \<open>
  The patterns that the source writes as literals use no back-reference and no look-around
  and are anchored at both ends, so \<open>pattern.test(s)\<close> is membership of \<open>s\<close> in a regular
  language. They are transcribed as terms of \<open>regex\<close> and matched by derivatives.
\<close>

datatype regex =
    Nul
  | Eps
  | Sym "char \<Rightarrow> bool"
  | Alt regex regex
  | Seq regex regex
  | Star regex

fun nullable :: "regex \<Rightarrow> bool" where
  "nullable Nul = False"
| "nullable Eps = True"
| "nullable (Sym p) = False"
| "nullable (Alt r s) = (nullable r \<or> nullable s)"
| "nullable (Seq r s) = (nullable r \<and> nullable s)"
| "nullable (Star r) = True"

fun deriv :: "char \<Rightarrow> regex \<Rightarrow> regex" where
  "deriv c Nul = Nul"
| "deriv c Eps = Nul"
| "deriv c (Sym p) = (if p c then Eps else Nul)"
| "deriv c (Alt r s) = Alt (deriv c r) (deriv c s)"
| "deriv c (Seq r s) =
     (if nullable r then Alt (Seq (deriv c r) s) (deriv c s) else Seq (deriv c r) s)"
| "deriv c (Star r) = Seq (deriv c r) (Star r)"

definition regex_test :: "regex \<Rightarrow> string \<Rightarrow> bool" where
  "regex_test r s = nullable (foldl (\<lambda>r c. deriv c r) r s)"

text \<open>\<open>r{n}\<close>, \<open>r{0,n}\<close>, \<open>r{m,n}\<close>, \<open>r+\<close> and \<open>r?\<close>.\<close>

fun times :: "nat \<Rightarrow> regex \<Rightarrow> regex" where
  "times 0 r = Eps"
| "times (Suc n) r = Seq r (times n r)"

fun upto :: "nat \<Rightarrow> regex \<Rightarrow> regex" where
  "upto 0 r = Eps"
| "upto (Suc n) r = Alt Eps (Seq r (upto n r))"

definition between :: "nat \<Rightarrow> nat \<Rightarrow> regex \<Rightarrow> regex" where
  "between m n r = Seq (times m r) (upto (n - m) r)"

definition plus1 :: "regex \<Rightarrow> regex" where
  "plus1 r = Seq r (Star r)"

definition opt :: "regex \<Rightarrow> regex" where
  "opt r = Alt Eps r"

definition chr :: "char \<Rightarrow> regex" where
  "chr c = Sym (\<lambda>x. x = c)"

definition in_range :: "nat \<Rightarrow> nat \<Rightarrow> char \<Rightarrow> bool" where
  "in_range lo hi c = (lo \<le> (of_char c :: nat) \<and> (of_char c :: nat) \<le> hi)"

definition alnum :: "char \<Rightarrow> bool" where
  "alnum c = (in_range 97 122 c \<or> in_range 65 90 c \<or> in_range 48 57 c)"

definition hexdigit :: "char \<Rightarrow> bool" where
  "hexdigit c = (in_range 48 57 c \<or> in_range 97 102 c \<or> in_range 65 70 c)"

text \<open>The class \<open>[a-zA-Z0-9.!#$%&'*+/=?^_`{|}~-]\<close> of the local part.\<close>

definition local_char :: "char \<Rightarrow> bool" where
  "local_char c =
     (alnum c \<or> (of_char c :: nat) \<in>
        {46, 33, 35, 36, 37, 38, 39, 42, 43, 47, 61, 63, 94, 95, 96, 123, 124, 125, 126, 45})"

definition domain_label :: regex where
  "domain_label =
     Seq (Sym alnum)
       (opt (Seq (upto 61 (Sym (\<lambda>c. alnum c \<or> c = CHR ''-''))) (Sym alnum)))"

definition emailPattern :: regex where
  "emailPattern =
     Seq (plus1 (Sym local_char))
       (Seq (chr CHR ''@'')
         (Seq domain_label (Star (Seq (chr CHR ''.'') domain_label))))"

definition octet :: regex where
  "octet =
     Alt (Sym (in_range 48 57))
       (Alt (Seq (Sym (in_range 49 57)) (Sym (in_range 48 57)))
         (Alt (Seq (chr CHR ''1'') (times 2 (Sym (in_range 48 57))))
           (Alt (Seq (chr CHR ''2'') (Seq (Sym (in_range 48 52)) (Sym (in_range 48 57))))
             (Seq (chr CHR ''2'') (Seq (chr CHR ''5'') (Sym (in_range 48 53)))))))"

definition ipv4Pattern :: regex where
  "ipv4Pattern = Seq (times 3 (Seq octet (chr CHR ''.''))) octet"

definition hextet :: regex where
  "hextet = between 1 4 (Sym hexdigit)"

definition hextet_colon :: regex where
  "hextet_colon = Seq hextet (chr CHR '':'')"

definition colon_hextet :: regex where
  "colon_hextet = Seq (chr CHR '':'') hextet"

definition ipv6Pattern :: regex where
  "ipv6Pattern =
     Alt (Seq (times 7 hextet_colon) hextet)
    (Alt (Seq (between 1 7 hextet_colon) (chr CHR '':''))
    (Alt (Seq (between 1 6 hextet_colon) colon_hextet)
    (Alt (Seq (between 1 5 hextet_colon) (between 1 2 colon_hextet))
    (Alt (Seq (between 1 4 hextet_colon) (between 1 3 colon_hextet))
    (Alt (Seq (between 1 3 hextet_colon) (between 1 4 colon_hextet))
    (Alt (Seq (between 1 2 hextet_colon) (between 1 5 colon_hextet))
    (Alt (Seq hextet_colon (between 1 6 colon_hextet))
         (Seq (chr CHR '':'') (Alt (between 1 7 colon_hextet) (chr CHR '':''))))))))))"

section \<open>Built-in validators\<close>

text \<open>A validator returns \<open>true\<close> or a string, the reason of the failure.\<close>

record UrlValidatorOptions =
  protocols :: "string list option"
  requireProtocol :: "bool option"

datatype ip_version = Ipv4 | Ipv6 | AnyVersion

record IpValidatorOptions =
  version :: "ip_version option"

record StringValidatorOptions =
  minLength :: "jsnum option"
  maxLength :: "jsnum option"

record NumberValidatorOptions =
  num_min :: "jsnum option"
  num_max :: "jsnum option"

definition validateUrl :: "platform \<Rightarrow> jsval \<Rightarrow> UrlValidatorOptions option \<Rightarrow> jsval" where
  "validateUrl P url options =
     (case url of
        Str s \<Rightarrow>
          let trimmedUrl = trim s
          in if trimmedUrl = [] then Str ''URL cannot be empty''
             else
               case URL_parse P trimmedUrl of
                 None \<Rightarrow> Str ''Invalid URL format''
               | Some parsedUrl \<Rightarrow>
                   let allowed =
                         (case options of
                            None \<Rightarrow> [''http:'', ''https:'', ''ftp:'']
                          | Some opts \<Rightarrow>
                              (case protocols opts of
                                 None \<Rightarrow> [''http:'', ''https:'', ''ftp:'']
                               | Some ps \<Rightarrow> ps));
                       required_protocol =
                         (case options of
                            None \<Rightarrow> True
                          | Some opts \<Rightarrow> requireProtocol opts \<noteq> Some False)
                   in if url_protocol parsedUrl \<notin> set allowed then
                        Str (''Protocol must be one of: '' @ join '', '' allowed)
                      else if required_protocol \<and> url_protocol parsedUrl = [] then
                        Str ''URL must include protocol (http://, https://, etc.)''
                      else if url_hostname parsedUrl \<noteq> []
                              \<and> length (url_hostname parsedUrl) > 253 then
                        Str ''Domain name is too long''
                      else Bool True
      | _ \<Rightarrow> Str ''Value must be a string'')"

definition validatePort :: "jsval \<Rightarrow> jsval" where
  "validatePort port0 =
     (let port = (case port0 of Str s \<Rightarrow> Num (parseInt10 s) | _ \<Rightarrow> port0)
      in case port of
           Num n \<Rightarrow>
             if isNaN n then Str ''Port must be a valid number''
             else if \<not> isInteger n \<or> js_less n (Fin 1) \<or> js_less (Fin 65535) n then
               Str ''Port must be an integer between 1 and 65535''
             else Bool True
         | _ \<Rightarrow> Str ''Port must be a valid number'')"

definition validateEmail :: "jsval \<Rightarrow> jsval" where
  "validateEmail email =
     (case email of
        Str s \<Rightarrow>
          let trimmedEmail = trim s
          in if trimmedEmail = [] then Str ''Email cannot be empty''
             else if \<not> regex_test emailPattern trimmedEmail then Str ''Invalid email format''
             else if CHR '' '' \<in> set trimmedEmail then Str ''Email cannot contain spaces''
             else if length (filter (\<lambda>c. c = CHR ''@'') trimmedEmail) \<noteq> 1 then
               Str ''Email must contain exactly one @ symbol''
             else Bool True
      | _ \<Rightarrow> Str ''Email must be a string'')"

definition validateIp :: "jsval \<Rightarrow> IpValidatorOptions option \<Rightarrow> jsval" where
  "validateIp ip options =
     (case ip of
        Str s \<Rightarrow>
          let trimmedIp = trim s
          in if trimmedIp = [] then Str ''IP cannot be empty''
             else
               let ver = (case options of
                            None \<Rightarrow> AnyVersion
                          | Some opts \<Rightarrow> (case version opts of None \<Rightarrow> AnyVersion | Some w \<Rightarrow> w))
               in if (ver = Ipv4 \<or> ver = AnyVersion) \<and> regex_test ipv4Pattern trimmedIp then
                    Bool True
                  else if (ver = Ipv6 \<or> ver = AnyVersion) \<and> regex_test ipv6Pattern trimmedIp then
                    Bool True
                  else if ver = Ipv4 then Str ''Invalid IPv4 address format''
                  else if ver = Ipv6 then Str ''Invalid IPv6 address format''
                  else Str ''Invalid IP address format (must be IPv4 or IPv6)''
      | _ \<Rightarrow> Str ''IP must be a string'')"

definition validateJson :: "platform \<Rightarrow> jsval \<Rightarrow> jsval" where
  "validateJson P jsonString =
     (case jsonString of
        Str s \<Rightarrow>
          let trimmedJson = trim s
          in if trimmedJson = [] then Str ''JSON cannot be empty''
             else
               case JSON_parse P trimmedJson of
                 Inr u \<Rightarrow> Bool True
               | Inl msg \<Rightarrow> Str (''Invalid JSON format: '' @ msg)
      | _ \<Rightarrow> Str ''JSON must be a string'')"

text \<open>
  \<open>validateRegex(value, pattern)\<close>. A \<open>RegExp\<close> supplied by the schema's author is known
  by its \<open>test\<close> method only. The engine calls this validator with one argument; reading
  \<open>test\<close> from the missing pattern then throws the runtime's \<open>TypeError\<close>.
\<close>

definition validateRegex :: "jsval \<Rightarrow> (string \<Rightarrow> bool) option \<Rightarrow> jsval outcome" where
  "validateRegex v pattern =
     (case v of
        Str s \<Rightarrow>
          (case pattern of
             None \<Rightarrow>
               Inl (ThrowError (''Cannot read properties of undefined (reading ''
                                  @ [CHR 0x27] @ ''test'' @ [CHR 0x27] @ '')''))
           | Some test \<Rightarrow>
               if \<not> test s then Inr (Str ''Value does not match the required pattern'')
               else Inr (Bool True))
      | _ \<Rightarrow> Inr (Str ''Value must be a string for regex validation''))"

definition validators_string :: "platform \<Rightarrow> jsval \<Rightarrow> StringValidatorOptions option \<Rightarrow> jsval" where
  "validators_string P v options =
     (case v of
        Str s \<Rightarrow>
          (case (case options of None \<Rightarrow> None | Some opts \<Rightarrow> minLength opts) of
             Some m \<Rightarrow>
               if js_less (Fin (of_nat (length s))) m then
                 Str (''String must be at least '' @ Number_toString P m @ '' characters long'')
               else
                 (case (case options of None \<Rightarrow> None | Some opts \<Rightarrow> maxLength opts) of
                    Some m' \<Rightarrow>
                      if js_less m' (Fin (of_nat (length s))) then
                        Str (''String must be no more than '' @ Number_toString P m'
                               @ '' characters long'')
                      else Bool True
                  | None \<Rightarrow> Bool True)
           | None \<Rightarrow>
               (case (case options of None \<Rightarrow> None | Some opts \<Rightarrow> maxLength opts) of
                  Some m' \<Rightarrow>
                    if js_less m' (Fin (of_nat (length s))) then
                      Str (''String must be no more than '' @ Number_toString P m'
                             @ '' characters long'')
                    else Bool True
                | None \<Rightarrow> Bool True))
      | _ \<Rightarrow> Str ''Value must be a string'')"

definition validators_number :: "platform \<Rightarrow> jsval \<Rightarrow> NumberValidatorOptions option \<Rightarrow> jsval" where
  "validators_number P v options =
     (case v of
        Num n \<Rightarrow>
          if isNaN n then Str ''Value must be a valid number''
          else
            (case (case options of None \<Rightarrow> None | Some opts \<Rightarrow> num_min opts) of
               Some m \<Rightarrow>
                 if js_less n m then Str (''Number must be at least '' @ Number_toString P m)
                 else
                   (case (case options of None \<Rightarrow> None | Some opts \<Rightarrow> num_max opts) of
                      Some m' \<Rightarrow>
                        if js_less m' n then
                          Str (''Number must be no more than '' @ Number_toString P m')
                        else Bool True
                    | None \<Rightarrow> Bool True)
             | None \<Rightarrow>
                 (case (case options of None \<Rightarrow> None | Some opts \<Rightarrow> num_max opts) of
                    Some m' \<Rightarrow>
                      if js_less m' n then
                        Str (''Number must be no more than '' @ Number_toString P m')
                      else Bool True
                  | None \<Rightarrow> Bool True))
      | _ \<Rightarrow> Str ''Value must be a valid number'')"

definition validators_boolean :: "jsval \<Rightarrow> jsval" where
  "validators_boolean v = (case v of Bool b \<Rightarrow> Bool True | _ \<Rightarrow> Str ''Value must be a boolean'')"

section \<open>Schemas\<close>

text \<open>
  A default is a value or a producer without arguments; a producer is known by what its
  call does. Functions supplied by the schema's author (\<open>validate\<close>, \<open>transform\<close>) take a
  value and return a value or throw.
\<close>

datatype js_default = DefaultValue jsval | DefaultProducer "jsval outcome"

type_synonym js_function = "jsval \<Rightarrow> jsval outcome"

text \<open>
  The union \<open>SchemaDefinition\<close> as one record: the options of \<open>BaseSchemaDefinition\<close>, then
  those of the variants. An option that is absent is \<open>None\<close> (for \<open>default\<close>,
  \<open>DefaultValue Undefined\<close>).
\<close>

record SchemaDefinition =
  fd_type :: "EnvType option"
  fd_required :: "bool option"
  fd_default :: js_default
  fd_enum :: "jsval list option"
  fd_validate :: "js_function option"
  fd_transform :: "js_function option"
  fd_description :: "string option"
  fd_minLength :: "jsnum option"
  fd_maxLength :: "jsnum option"
  fd_min :: "jsnum option"
  fd_max :: "jsnum option"
  fd_protocols :: "string list option"
  fd_requireProtocol :: "bool option"
  fd_common :: "string list option"
  fd_allowPlus :: "bool option"
  fd_version :: "ip_version option"
  fd_pattern :: "(string \<Rightarrow> bool) option"

text \<open>An entry of the raw schema is a field definition or something that is not an object.\<close>

datatype raw_definition = NotAnObject | Definition SchemaDefinition

text \<open>
  \<open>Partial<SchemaDefinition>\<close>, the override of one field in one environment: the keys
  that the engine reads after the merge (\<open>type\<close>, \<open>required\<close>, \<open>default\<close>, \<open>transform\<close>)
  and, of those it never reads, \<open>enum\<close>, \<open>validate\<close> and \<open>description\<close>. \<open>None\<close> is a key
  that the override does not have.
\<close>

record FieldOverride =
  ov_type :: "EnvType option"
  ov_required :: "bool option"
  ov_default :: "js_default option"
  ov_transform :: "js_function option option"
  ov_enum :: "jsval list option option"
  ov_validate :: "js_function option option"
  ov_description :: "string option option"

type_synonym EnvironmentOverrides = "string \<rightharpoonup> (string \<rightharpoonup> FieldOverride)"

record SchemaWithEnvironments =
  sw_fields :: "(string \<times> raw_definition) list"
  sw_environments :: "EnvironmentOverrides option"

record CompiledFieldSchema =
  cf_type :: EnvType
  cf_required :: bool
  cf_default :: js_default
  cf_validator :: "js_function option"
  cf_transform :: "js_function option"
  cf_enum :: "jsval list option"
  cf_description :: "string option"

type_synonym CompiledSchema = "(string \<times> CompiledFieldSchema) list"

record CompiledSchemaWithEnvironments =
  cs_schema :: CompiledSchema
  cs_environments :: "EnvironmentOverrides option"

record SchemaError =
  se_message :: string
  se_schemaPath :: string

section \<open>defineSchema\<close>

text \<open>
  The wrapper around the author's \<open>validate\<close>:
  \<open>result === true ? true : result || 'Custom validation failed'\<close>.
\<close>

definition custom_validator :: "js_function \<Rightarrow> js_function" where
  "custom_validator validate val =
     (case validate val of
        Inl e \<Rightarrow> Inl e
      | Inr result \<Rightarrow>
          Inr (if result = Bool True then Bool True
               else if truthy result then result
               else Str ''Custom validation failed''))"

text \<open>
  The closure that every type-specific case builds: the built-in check first, its reason
  returned when it fails, then the validator that was there before, if any.
\<close>

definition type_layer :: "(jsval \<Rightarrow> jsval) \<Rightarrow> js_function option \<Rightarrow> js_function" where
  "type_layer check originalValidator v =
     (let r = check v
      in if r \<noteq> Bool True then Inr r
         else case originalValidator of Some f \<Rightarrow> f v | None \<Rightarrow> Inr (Bool True))"

definition type_specific ::
  "platform \<Rightarrow> SchemaDefinition \<Rightarrow> EnvType \<Rightarrow> js_function option \<Rightarrow> js_function option" where
  "type_specific P fieldDef ty validator =
     (case ty of
        T_string \<Rightarrow>
          if fd_minLength fieldDef \<noteq> None \<or> fd_maxLength fieldDef \<noteq> None then
            Some (type_layer
                    (\<lambda>v. validators_string P v
                            (Some \<lparr> minLength = fd_minLength fieldDef,
                                    maxLength = fd_maxLength fieldDef \<rparr>))
                    validator)
          else validator
      | T_number \<Rightarrow>
          if fd_min fieldDef \<noteq> None \<or> fd_max fieldDef \<noteq> None then
            Some (type_layer
                    (\<lambda>v. validators_number P v
                            (Some \<lparr> num_min = fd_min fieldDef, num_max = fd_max fieldDef \<rparr>))
                    validator)
          else validator
      | T_url \<Rightarrow>
          if fd_protocols fieldDef \<noteq> None \<or> fd_requireProtocol fieldDef \<noteq> None then
            Some (type_layer
                    (\<lambda>v. validateUrl P v
                            (Some \<lparr> protocols = fd_protocols fieldDef,
                                    requireProtocol = fd_requireProtocol fieldDef \<rparr>))
                    validator)
          else validator
      | T_port \<Rightarrow>
          if fd_common fieldDef \<noteq> None then Some (type_layer validatePort validator)
          else validator
      | T_email \<Rightarrow>
          if fd_allowPlus fieldDef \<noteq> None then Some (type_layer validateEmail validator)
          else validator
      | T_ip \<Rightarrow>
          if fd_version fieldDef \<noteq> None then
            Some (type_layer (\<lambda>v. validateIp v (Some \<lparr> version = fd_version fieldDef \<rparr>))
                    validator)
          else validator
      | T_regex \<Rightarrow>
          if fd_pattern fieldDef \<noteq> None then Some (\<lambda>v. validateRegex v (fd_pattern fieldDef))
          else validator
      | _ \<Rightarrow> validator)"

definition enum_layer :: "platform \<Rightarrow> jsval list \<Rightarrow> js_function option \<Rightarrow> js_function" where
  "enum_layer P enumValues originalValidator v =
     (if v \<notin> set enumValues then
        Inr (Str (''Value must be one of: '' @ array_join P '', '' enumValues))
      else case originalValidator of Some f \<Rightarrow> f v | None \<Rightarrow> Inr (Bool True))"

text \<open>The reason that the enum check returns, as a value.\<close>

definition enum_message :: "platform \<Rightarrow> jsval list \<Rightarrow> jsval" where
  "enum_message P es = Str (''Value must be one of: '' @ array_join P '', '' es)"

text \<open>The body of the loop of \<open>defineSchema\<close> for a field definition that has a type.\<close>

definition compile_field :: "platform \<Rightarrow> SchemaDefinition \<Rightarrow> EnvType \<Rightarrow> CompiledFieldSchema" where
  "compile_field P fieldDef ty =
     (let validator0 = (case fd_validate fieldDef of
                          Some validate \<Rightarrow> Some (custom_validator validate)
                        | None \<Rightarrow> None);
          validator1 = type_specific P fieldDef ty validator0;
          validator2 = (case fd_enum fieldDef of
                          Some enumValues \<Rightarrow>
                            if length enumValues > 0 then Some (enum_layer P enumValues validator1)
                            else validator1
                        | None \<Rightarrow> validator1)
      in \<lparr> cf_type = ty,
           cf_required = (case fd_required fieldDef of Some b \<Rightarrow> b | None \<Rightarrow> False),
           cf_default = fd_default fieldDef,
           cf_validator = validator2,
           cf_transform = fd_transform fieldDef,
           cf_enum = fd_enum fieldDef,
           cf_description = fd_description fieldDef \<rparr>)"

fun compile_fields ::
  "platform \<Rightarrow> (string \<times> raw_definition) list \<Rightarrow> CompiledSchema \<Rightarrow> SchemaError + CompiledSchema" where
  "compile_fields P [] compiledSchema = Inr compiledSchema"
| "compile_fields P ((fieldName, defn) # rest) compiledSchema =
     (if fieldName = ''_environments'' then compile_fields P rest compiledSchema
      else
        case defn of
          NotAnObject \<Rightarrow>
            Inl \<lparr> se_message = ''Invalid schema definition for field '' @ [CHR 0x22]
                                  @ fieldName @ [CHR 0x22],
                  se_schemaPath = fieldName \<rparr>
        | Definition fieldDef \<Rightarrow>
            (case fd_type fieldDef of
               None \<Rightarrow>
                 Inl \<lparr> se_message = ''Field '' @ [CHR 0x22] @ fieldName @ [CHR 0x22]
                                       @ '' must specify a type'',
                       se_schemaPath = fieldName \<rparr>
             | Some ty \<Rightarrow>
                 compile_fields P rest
                   (AList.update fieldName (compile_field P fieldDef ty) compiledSchema)))"

definition defineSchema ::
  "platform \<Rightarrow> SchemaWithEnvironments \<Rightarrow> SchemaError + CompiledSchemaWithEnvironments" where
  "defineSchema P schema =
     (case compile_fields P (sw_fields schema) [] of
        Inl e \<Rightarrow> Inl e
      | Inr compiledSchema \<Rightarrow>
          Inr \<lparr> cs_schema = compiledSchema, cs_environments = sw_environments schema \<rparr>)"

section \<open>validateEnv\<close>

record ValidationResult =
  success :: bool
  data :: "(string \<times> jsval) list option"
  errors :: "ValidationErrorResult list"
  hasErrors :: bool

text \<open>
  The per-call copy of a compiled field, \<open>{ ...fieldSchema }\<close>, after
  \<open>Object.assign(effectiveSchema, envOverrides[fieldName])\<close>: the properties of the compiled
  field, and \<open>validate\<close>, which only an override can put there.
\<close>

record EffectiveSchema = CompiledFieldSchema +
  eff_validate :: "js_function option"

definition spread :: "CompiledFieldSchema \<Rightarrow> EffectiveSchema" where
  "spread fieldSchema =
     \<lparr> cf_type = cf_type fieldSchema,
       cf_required = cf_required fieldSchema,
       cf_default = cf_default fieldSchema,
       cf_validator = cf_validator fieldSchema,
       cf_transform = cf_transform fieldSchema,
       cf_enum = cf_enum fieldSchema,
       cf_description = cf_description fieldSchema,
       eff_validate = None \<rparr>"

definition object_assign :: "EffectiveSchema \<Rightarrow> FieldOverride \<Rightarrow> EffectiveSchema" where
  "object_assign target source =
     \<lparr> cf_type = (case ov_type source of Some x \<Rightarrow> x | None \<Rightarrow> cf_type target),
       cf_required = (case ov_required source of Some x \<Rightarrow> x | None \<Rightarrow> cf_required target),
       cf_default = (case ov_default source of Some x \<Rightarrow> x | None \<Rightarrow> cf_default target),
       cf_validator = cf_validator target,
       cf_transform = (case ov_transform source of Some x \<Rightarrow> x | None \<Rightarrow> cf_transform target),
       cf_enum = (case ov_enum source of Some x \<Rightarrow> x | None \<Rightarrow> cf_enum target),
       cf_description =
         (case ov_description source of Some x \<Rightarrow> x | None \<Rightarrow> cf_description target),
       eff_validate = (case ov_validate source of Some x \<Rightarrow> x | None \<Rightarrow> eff_validate target) \<rparr>"

definition effective_schema ::
  "(string \<rightharpoonup> FieldOverride) \<Rightarrow> string \<Rightarrow> CompiledFieldSchema \<Rightarrow> EffectiveSchema" where
  "effective_schema envOverrides fieldName fieldSchema =
     (case envOverrides fieldName of
        Some ov \<Rightarrow> object_assign (spread fieldSchema) ov
      | None \<Rightarrow> spread fieldSchema)"

text \<open>
  \<open>environment && compiledSchema._environments?.[environment] || {}\<close>: no name, the empty
  name, no override block at all and an unknown name all give the empty object.
\<close>

definition select_overrides ::
  "CompiledSchemaWithEnvironments \<Rightarrow> string option \<Rightarrow> (string \<rightharpoonup> FieldOverride)" where
  "select_overrides compiledSchema environment =
     (case environment of
        None \<Rightarrow> Map.empty
      | Some name \<Rightarrow>
          if name = [] then Map.empty
          else
            (case cs_environments compiledSchema of
               None \<Rightarrow> Map.empty
             | Some envs \<Rightarrow> (case envs name of None \<Rightarrow> Map.empty | Some block \<Rightarrow> block)))"

text \<open>The two accumulators of the loop.\<close>

record vstate =
  st_errors :: "ValidationErrorResult list"
  st_data :: "(string \<times> jsval) list"

definition push_error :: "ValidationErrorResult \<Rightarrow> vstate \<Rightarrow> vstate" where
  "push_error e st = st \<lparr> st_errors := st_errors st @ [e] \<rparr>"

definition set_data :: "string \<Rightarrow> jsval \<Rightarrow> vstate \<Rightarrow> vstate" where
  "set_data fieldName v st = st \<lparr> st_data := AList.update fieldName v (st_data st) \<rparr>"

text \<open>\<open>(validators as any)[effectiveSchema.type](value)\<close>: one argument, no options.\<close>

definition builtInValidator :: "platform \<Rightarrow> EnvType \<Rightarrow> jsval \<Rightarrow> jsval outcome" where
  "builtInValidator P ty v =
     (case ty of
        T_url \<Rightarrow> Inr (validateUrl P v None)
      | T_port \<Rightarrow> Inr (validatePort v)
      | T_email \<Rightarrow> Inr (validateEmail v)
      | T_ip \<Rightarrow> Inr (validateIp v None)
      | T_json \<Rightarrow> Inr (validateJson P v)
      | T_regex \<Rightarrow> validateRegex v None
      | T_string \<Rightarrow> Inr (validators_string P v None)
      | T_number \<Rightarrow> Inr (validators_number P v None)
      | T_boolean \<Rightarrow> Inr (validators_boolean v))"

text \<open>The entry that the outer \<open>catch\<close> pushes; \<open>v\<close> is the working value when the throw happened.\<close>

definition caught_error :: "thrown \<Rightarrow> string \<Rightarrow> string \<Rightarrow> jsval \<Rightarrow> ValidationErrorResult" where
  "caught_error e fieldName envVarName v =
     (case e of
        ThrowValidationError err \<Rightarrow>
          \<lparr> err_field = err_field err,
            err_message = err_message err,
            err_value = err_value err,
            err_expected = err_expected err,
            err_received = err_received err,
            err_envVarName = err_envVarName err,
            err_type = err_type err \<rparr>
      | ThrowError msg \<Rightarrow>
          \<lparr> err_field = fieldName,
            err_message = msg,
            err_value = v,
            err_expected = None,
            err_received = None,
            err_envVarName = envVarName,
            err_type = TypeError \<rparr>
      | ThrowOther \<Rightarrow>
          \<lparr> err_field = fieldName,
            err_message = ''Unknown error during validation'',
            err_value = v,
            err_expected = None,
            err_received = None,
            err_envVarName = envVarName,
            err_type = TypeError \<rparr>)"

definition thrown_message :: "thrown \<Rightarrow> string" where
  "thrown_message e =
     (case e of
        ThrowValidationError err \<Rightarrow> err_message err
      | ThrowError msg \<Rightarrow> msg
      | ThrowOther \<Rightarrow> ''Unknown error'')"

text \<open>The built-in validator, then the compiled validator, then the write into the data.\<close>

definition validate_stages ::
  "platform \<Rightarrow> EffectiveSchema \<Rightarrow> string \<Rightarrow> string \<Rightarrow> jsval \<Rightarrow> vstate \<Rightarrow> vstate" where
  "validate_stages P effectiveSchema fieldName envVarName v st =
     (case builtInValidator P (cf_type effectiveSchema) v of
        Inl e \<Rightarrow> push_error (caught_error e fieldName envVarName v) st
      | Inr validatorResult \<Rightarrow>
          if validatorResult \<noteq> Bool True then
            push_error
              \<lparr> err_field = fieldName,
                err_message = (case validatorResult of Str m \<Rightarrow> m | _ \<Rightarrow> ''Validation failed''),
                err_value = v,
                err_expected = None,
                err_received = None,
                err_envVarName = envVarName,
                err_type = FormatError \<rparr> st
          else
            case cf_validator effectiveSchema of
              None \<Rightarrow> set_data fieldName v st
            | Some validator \<Rightarrow>
                (case validator v of
                   Inl e \<Rightarrow> push_error (caught_error e fieldName envVarName v) st
                 | Inr customResult \<Rightarrow>
                     if customResult \<noteq> Bool True then
                       push_error
                         \<lparr> err_field = fieldName,
                           err_message = (case customResult of
                                            Str m \<Rightarrow> m
                                          | _ \<Rightarrow> ''Custom validation failed''),
                           err_value = v,
                           err_expected = None,
                           err_received = None,
                           err_envVarName = envVarName,
                           err_type = FormatError \<rparr> st
                     else set_data fieldName v st))"

text \<open>The \<open>try\<close> block of the loop body with its \<open>catch\<close>, for the working value \<open>v\<close>.\<close>

definition try_block ::
  "platform \<Rightarrow> EffectiveSchema \<Rightarrow> string \<Rightarrow> string \<Rightarrow> jsval \<Rightarrow> vstate \<Rightarrow> vstate" where
  "try_block P effectiveSchema fieldName envVarName v st =
     (case (if cf_type effectiveSchema \<in> set [T_string, T_number, T_boolean, T_port]
            then coerceValue P v (cf_type effectiveSchema) else Inr v) of
        Inl e \<Rightarrow> push_error (caught_error e fieldName envVarName v) st
      | Inr coerced \<Rightarrow>
          (case cf_transform effectiveSchema of
             None \<Rightarrow> validate_stages P effectiveSchema fieldName envVarName coerced st
           | Some transform \<Rightarrow>
               (case transform coerced of
                  Inl e \<Rightarrow>
                    push_error
                      \<lparr> err_field = fieldName,
                        err_message = ''Transform failed: '' @ thrown_message e,
                        err_value = coerced,
                        err_expected = None,
                        err_received = None,
                        err_envVarName = envVarName,
                        err_type = TransformError \<rparr> st
                | Inr transformed \<Rightarrow>
                    validate_stages P effectiveSchema fieldName envVarName transformed st)))"

definition env_lookup :: "(string \<rightharpoonup> jsval) \<Rightarrow> string \<Rightarrow> jsval" where
  "env_lookup env k = (case env k of None \<Rightarrow> Undefined | Some v \<Rightarrow> v)"

text \<open>
  One iteration of the loop. The call of a default producer is outside the \<open>try\<close>: when it
  throws, the exception leaves \<open>validateEnv\<close>.
\<close>

definition process_field ::
  "platform \<Rightarrow> (string \<rightharpoonup> FieldOverride) \<Rightarrow> (string \<rightharpoonup> jsval)
     \<Rightarrow> string \<times> CompiledFieldSchema \<Rightarrow> vstate \<Rightarrow> vstate outcome" where
  "process_field P envOverrides env entry st =
     (let fieldName = fst entry;
          effectiveSchema = effective_schema envOverrides fieldName (snd entry);
          envVarName = toUpperCase fieldName;
          v = env_lookup env envVarName
      in if v = Undefined then
           if cf_required effectiveSchema then
             Inr (push_error
                    \<lparr> err_field = fieldName,
                      err_message = ''Required environment variable '' @ [CHR 0x22] @ envVarName
                                      @ [CHR 0x22] @ '' is missing'',
                      err_value = Undefined,
                      err_expected = None,
                      err_received = None,
                      err_envVarName = envVarName,
                      err_type = RequiredError \<rparr> st)
           else if cf_default effectiveSchema \<noteq> DefaultValue Undefined then
             (case cf_default effectiveSchema of
                DefaultProducer call \<Rightarrow>
                  (case call of
                     Inl e \<Rightarrow> Inl e
                   | Inr d \<Rightarrow> Inr (try_block P effectiveSchema fieldName envVarName d st))
              | DefaultValue d \<Rightarrow> Inr (try_block P effectiveSchema fieldName envVarName d st))
           else Inr st
         else Inr (try_block P effectiveSchema fieldName envVarName v st))"

fun validate_fields ::
  "platform \<Rightarrow> (string \<rightharpoonup> FieldOverride) \<Rightarrow> (string \<rightharpoonup> jsval)
     \<Rightarrow> (string \<times> CompiledFieldSchema) list \<Rightarrow> vstate \<Rightarrow> vstate outcome" where
  "validate_fields P envOverrides env [] st = Inr st"
| "validate_fields P envOverrides env (entry # rest) st =
     (case process_field P envOverrides env entry st of
        Inl e \<Rightarrow> Inl e
      | Inr st' \<Rightarrow> validate_fields P envOverrides env rest st')"

definition validateEnv ::
  "platform \<Rightarrow> CompiledSchemaWithEnvironments \<Rightarrow> (string \<rightharpoonup> jsval) option \<Rightarrow> string option
     \<Rightarrow> ValidationResult outcome" where
  "validateEnv P compiledSchema envVars environment =
     (let env = (case envVars of Some e \<Rightarrow> e | None \<Rightarrow> process_env P);
          envOverrides = select_overrides compiledSchema environment
      in case validate_fields P envOverrides env (cs_schema compiledSchema)
                \<lparr> st_errors = [], st_data = [] \<rparr> of
           Inl e \<Rightarrow> Inl e
         | Inr st \<Rightarrow>
             Inr \<lparr> success = (length (st_errors st) = 0),
                   data = (if length (st_errors st) = 0 then Some (st_data st) else None),
                   errors = st_errors st,
                   hasErrors = (length (st_errors st) > 0) \<rparr>)"

text \<open>What one field adds to the error list: the errors of its iteration from an empty state.\<close>

definition field_errors ::
  "platform \<Rightarrow> (string \<rightharpoonup> FieldOverride) \<Rightarrow> (string \<rightharpoonup> jsval)
     \<Rightarrow> string \<times> CompiledFieldSchema \<Rightarrow> ValidationErrorResult list" where
  "field_errors P envOverrides env entry =
     (case process_field P envOverrides env entry \<lparr> st_errors = [], st_data = [] \<rparr> of
        Inl e \<Rightarrow> []
      | Inr st \<Rightarrow> st_errors st)"

text \<open>A default whose producer throws when it is called.\<close>

definition producer_throws :: "js_default \<Rightarrow> bool" where
  "producer_throws d = (case d of DefaultProducer (Inl e) \<Rightarrow> True | _ \<Rightarrow> False)"

text \<open>
  The iteration for \<open>entry\<close> calls a default producer and that call throws: the variable is
  absent, the field is not required after the overrides, and its default is such a
  producer.
\<close>

definition calls_throwing_default ::
  "(string \<rightharpoonup> FieldOverride) \<Rightarrow> (string \<rightharpoonup> jsval) \<Rightarrow> string \<times> CompiledFieldSchema \<Rightarrow> bool" where
  "calls_throwing_default envOverrides env entry =
     (env_lookup env (toUpperCase (fst entry)) = Undefined
      \<and> \<not> cf_required (effective_schema envOverrides (fst entry) (snd entry))
      \<and> producer_throws (cf_default (effective_schema envOverrides (fst entry) (snd entry))))"

text \<open>
  The stages of the pipeline of one field, as the state machine of the engine names them:
  the coercion of the working value (for the four coercible types), the transform of the
  coerced value, and the entries that a failed transform and a failed check leave in the
  error list. The working value is the raw value when the variable is present, and
  otherwise the default of a field that is not required.
\<close>

definition coerce_stage :: "platform \<Rightarrow> EffectiveSchema \<Rightarrow> jsval \<Rightarrow> jsval outcome" where
  "coerce_stage P eff v =
     (if cf_type eff = T_string \<or> cf_type eff = T_number \<or> cf_type eff = T_boolean
         \<or> cf_type eff = T_port
      then coerceValue P v (cf_type eff) else Inr v)"

definition transform_stage :: "EffectiveSchema \<Rightarrow> jsval \<Rightarrow> jsval outcome" where
  "transform_stage eff c = (case cf_transform eff of None \<Rightarrow> Inr c | Some t \<Rightarrow> t c)"

definition working_value ::
  "(string \<rightharpoonup> FieldOverride) \<Rightarrow> (string \<rightharpoonup> jsval) \<Rightarrow> string \<times> CompiledFieldSchema
     \<Rightarrow> jsval option" where
  "working_value envOverrides env entry =
     (let eff = effective_schema envOverrides (fst entry) (snd entry);
          v = env_lookup env (toUpperCase (fst entry))
      in if v \<noteq> Undefined then Some v
         else if cf_required eff then None
         else case cf_default eff of
                DefaultValue d \<Rightarrow> if d = Undefined then None else Some d
              | DefaultProducer call \<Rightarrow> (case call of Inl e \<Rightarrow> None | Inr d \<Rightarrow> Some d))"

definition transform_failed :: "string \<Rightarrow> string \<Rightarrow> jsval \<Rightarrow> thrown \<Rightarrow> ValidationErrorResult" where
  "transform_failed f n c e =
     \<lparr> err_field = f, err_message = ''Transform failed: '' @ thrown_message e, err_value = c,
       err_expected = None, err_received = None, err_envVarName = n,
       err_type = TransformError \<rparr>"

definition format_failed :: "string \<Rightarrow> string \<Rightarrow> jsval \<Rightarrow> jsval \<Rightarrow> string \<Rightarrow> ValidationErrorResult" where
  "format_failed f n x b fallback =
     \<lparr> err_field = f, err_message = (case b of Str m \<Rightarrow> m | _ \<Rightarrow> fallback), err_value = x,
       err_expected = None, err_received = None, err_envVarName = n, err_type = FormatError \<rparr>"

text \<open>The override \<open>{}\<close>.\<close>

definition no_override :: FieldOverride where
  "no_override =
     \<lparr> ov_type = None, ov_required = None, ov_default = None, ov_transform = None,
       ov_enum = None, ov_validate = None, ov_description = None \<rparr>"

text \<open>
  Two overrides that differ in the key \<open>validate\<close> at most; an override that is missing
  counts as \<open>{}\<close>.
\<close>

definition same_but_validate :: "FieldOverride option \<Rightarrow> FieldOverride option \<Rightarrow> bool" where
  "same_but_validate a b =
     ((case a of Some x \<Rightarrow> x | None \<Rightarrow> no_override) \<lparr> ov_validate := None \<rparr> =
      (case b of Some y \<Rightarrow> y | None \<Rightarrow> no_override) \<lparr> ov_validate := None \<rparr>)"










section \<open>Inputs of the closed examples\<close>

text \<open>
  A host for the examples: it renders no number, knows URLs of the shape
  \<open>scheme://host...\<close> only, takes every text for JSON and has an empty process
  environment.
\<close>

definition simple_url :: "string \<Rightarrow> URL option" where
  "simple_url s =
     (let scheme = takeWhile (\<lambda>c. c \<noteq> CHR '':'') s;
          rest = dropWhile (\<lambda>c. c \<noteq> CHR '':'') s
      in if scheme \<noteq> [] \<and> list_all alnum scheme \<and> take 3 rest = ''://'' then
           Some \<lparr> url_protocol = toLowerCase scheme @ '':'',
                  url_hostname = takeWhile (\<lambda>c. c \<notin> set ''/:?#'') (drop 3 rest) \<rparr>
         else None)"

definition test_host :: platform where
  "test_host =
     \<lparr> Number_toString = (\<lambda>n. []),
       URL_parse = simple_url,
       JSON_parse = (\<lambda>s. Inr ()),
       process_env = Map.empty \<rparr>"

text \<open>The field definition \<open>{ type: ty }\<close>.\<close>

definition plain_field :: "EnvType \<Rightarrow> SchemaDefinition" where
  "plain_field ty =
     \<lparr> fd_type = Some ty, fd_required = None, fd_default = DefaultValue Undefined,
       fd_enum = None, fd_validate = None, fd_transform = None, fd_description = None,
       fd_minLength = None, fd_maxLength = None, fd_min = None, fd_max = None,
       fd_protocols = None, fd_requireProtocol = None, fd_common = None,
       fd_allowPlus = None, fd_version = None, fd_pattern = None \<rparr>"

text \<open>\<open>defineSchema({ NAME: { type: 'string' }, DEBUG: { type: 'boolean' } })\<close>.\<close>

definition two_fields :: CompiledSchemaWithEnvironments where
  "two_fields =
     \<lparr> cs_schema = [(''NAME'', compile_field test_host (plain_field T_string) T_string),
                    (''DEBUG'', compile_field test_host (plain_field T_boolean) T_boolean)],
       cs_environments = None \<rparr>"

text \<open>
  Five fields, each with one problem at validation time for the values of \<open>five_values\<close>:
  a word that is no boolean, a transform that throws, a text that is no URL, a custom
  predicate that throws and a custom predicate that returns \<open>false\<close>.
\<close>

definition five_problems :: CompiledSchemaWithEnvironments where
  "five_problems =
     \<lparr> cs_schema =
         [(''FLAG'', compile_field test_host (plain_field T_boolean) T_boolean),
          (''NAME'', compile_field test_host
                       ((plain_field T_string)
                          \<lparr> fd_transform := Some (\<lambda>v. Inl (ThrowError ''boom'')) \<rparr>) T_string),
          (''SITE'', compile_field test_host (plain_field T_url) T_url),
          (''TOKEN'', compile_field test_host
                        ((plain_field T_string)
                           \<lparr> fd_validate := Some (\<lambda>v. Inl (ThrowError ''broken'')) \<rparr>) T_string),
          (''MODE'', compile_field test_host
                       ((plain_field T_string)
                          \<lparr> fd_validate := Some (\<lambda>v. Inr (Bool False)) \<rparr>) T_string)],
       cs_environments = None \<rparr>"

definition five_values :: "string \<rightharpoonup> jsval" where
  "five_values =
     [''FLAG'' \<mapsto> Str ''maybe'', ''NAME'' \<mapsto> Str ''x'', ''SITE'' \<mapsto> Str ''nonsense'',
      ''TOKEN'' \<mapsto> Str ''t'', ''MODE'' \<mapsto> Str ''m'']"

text \<open>
  \<open>{ DATABASE_URL: { type: 'url', required: false },
      _environments: { production: { DATABASE_URL: { required: true } } } }\<close>.
\<close>

definition database_overrides :: EnvironmentOverrides where
  "database_overrides =
     [''production'' \<mapsto> [''DATABASE_URL'' \<mapsto> no_override \<lparr> ov_required := Some True \<rparr>]]"

definition database_schema :: SchemaWithEnvironments where
  "database_schema =
     \<lparr> sw_fields = [(''DATABASE_URL'',
                      Definition ((plain_field T_url) \<lparr> fd_required := Some False \<rparr>))],
       sw_environments = Some database_overrides \<rparr>"

definition database_compiled :: CompiledSchemaWithEnvironments where
  "database_compiled =
     \<lparr> cs_schema = [(''DATABASE_URL'',
                      compile_field test_host
                        ((plain_field T_url) \<lparr> fd_required := Some False \<rparr>) T_url)],
       cs_environments = Some database_overrides \<rparr>"

text \<open>
  \<open>{ API_KEY: { type: 'string', validate: v => v === 'secret' || 'wrong key' } }\<close>, and a
  predicate for an override that lets nothing pass.
\<close>

definition api_key_compiled :: CompiledSchemaWithEnvironments where
  "api_key_compiled =
     \<lparr> cs_schema =
         [(''API_KEY'', compile_field test_host
                          ((plain_field T_string)
                             \<lparr> fd_validate :=
                                 Some (\<lambda>v. if v = Str ''secret'' then Inr (Bool True)
                                            else Inr (Str ''wrong key'')) \<rparr>) T_string)],
       cs_environments = None \<rparr>"

definition reject_all :: js_function where
  "reject_all v = Inr (Str ''never'')"

text \<open>
  \<open>{ type: 'url', protocols: ['https:'], enum: ['http://a.example', 'https://a.example'],
      validate: v => 'custom says no' }\<close>.
\<close>

definition refuse :: js_function where
  "refuse v = Inr (Str ''custom says no'')"


text \<open>
  \<open>{ type: 'regex', pattern: /^abc$/, validate: v => 'custom says no' }\<close>, and the same with
  \<open>enum: ['xyz']\<close>.
\<close>

definition key_field :: SchemaDefinition where
  "key_field =
     (plain_field T_regex) \<lparr> fd_pattern := Some (\<lambda>s. s = ''abc''), fd_validate := Some refuse \<rparr>"

definition key_field_enum :: SchemaDefinition where
  "key_field_enum = key_field \<lparr> fd_enum := Some [Str ''xyz''] \<rparr>"



text \<open>\<open>defineSchema({ port: { type: 'number' } })\<close>.\<close>

definition port_compiled :: CompiledSchemaWithEnvironments where
  "port_compiled =
     \<lparr> cs_schema = [(''port'', compile_field test_host (plain_field T_number) T_number)],
       cs_environments = None \<rparr>"



section \<open>The loop adds at most one error for a field\<close>

lemma validate_stages_errors:
  "st_errors (validate_stages P eff f n v st) =
     st_errors st @ st_errors (validate_stages P eff f n v \<lparr> st_errors = [], st_data = [] \<rparr>)"
  by (simp add: validate_stages_def push_error_def set_data_def
           split: sum.splits option.splits)

lemma validate_stages_at_most_one:
  "length (st_errors (validate_stages P eff f n v \<lparr> st_errors = [], st_data = [] \<rparr>)) \<le> 1"
  by (simp add: validate_stages_def push_error_def set_data_def
           split: sum.splits option.splits)

lemma try_block_errors:
  "st_errors (try_block P eff f n v st) =
     st_errors st @ st_errors (try_block P eff f n v \<lparr> st_errors = [], st_data = [] \<rparr>)"
  using validate_stages_errors [of P eff f n _ st]
  by (simp add: try_block_def push_error_def split: sum.splits option.splits)

lemma try_block_at_most_one:
  "length (st_errors (try_block P eff f n v \<lparr> st_errors = [], st_data = [] \<rparr>)) \<le> 1"
  using validate_stages_at_most_one [of P eff f n]
  by (simp add: try_block_def push_error_def split: sum.splits option.splits)

lemma process_field_errors:
  assumes "process_field P ovs env entry st = Inr st'"
  shows "st_errors st' = st_errors st @ field_errors P ovs env entry"
proof -
  let ?st0 = "\<lparr> st_errors = [], st_data = [] \<rparr>"
  let ?eff = "effective_schema ovs (fst entry) (snd entry)"
  let ?n = "toUpperCase (fst entry)"
  have tb: "\<And>d. st_errors (try_block P ?eff (fst entry) ?n d st) =
                  st_errors st @ st_errors (try_block P ?eff (fst entry) ?n d ?st0)"
    by (rule try_block_errors)
  show ?thesis
    using assms tb
    by (auto simp add: process_field_def field_errors_def Let_def push_error_def
             split: if_splits js_default.splits sum.splits)
qed

lemma field_errors_at_most_one: "length (field_errors P ovs env entry) \<le> 1"
  using try_block_at_most_one
  by (auto simp add: process_field_def field_errors_def Let_def push_error_def
           split: if_splits js_default.splits sum.splits)

lemma validate_fields_errors:
  "validate_fields P ovs env fs st = Inr st' \<Longrightarrow>
   st_errors st' = st_errors st @ concat (map (field_errors P ovs env) fs)"
proof (induction fs arbitrary: st)
  case Nil
  then show ?case by simp
next
  case (Cons entry rest)
  then obtain st1 where s1: "process_field P ovs env entry st = Inr st1"
    and s2: "validate_fields P ovs env rest st1 = Inr st'"
    by (auto split: sum.splits)
  from process_field_errors [OF s1] Cons.IH [OF s2] show ?case by simp
qed

section \<open>The shape of the result\<close>

text \<open>
  C5. Whenever \<open>validateEnv\<close> returns a result, \<open>success\<close> is true exactly when the error
  list is empty, \<open>hasErrors\<close> exactly when it is not, and \<open>data\<close> is present exactly when it
  is empty: one failing field withholds the data of every field.
\<close>

theorem validateEnv_result_shape:
  "validateEnv P cs envVars environment = Inr r \<Longrightarrow>
     (success r \<longleftrightarrow> errors r = []) \<and> (hasErrors r \<longleftrightarrow> errors r \<noteq> [])
     \<and> (data r \<noteq> None \<longleftrightarrow> errors r = [])"
  by (auto simp add: validateEnv_def Let_def split: sum.splits if_splits)

text \<open>
  Two fields, \<open>NAME\<close> valid and \<open>DEBUG\<close> not a boolean word: no data, though \<open>NAME\<close> passed.
\<close>

theorem validateEnv_result_shape_witness:
  "\<exists>r. validateEnv test_host two_fields
          (Some [''NAME'' \<mapsto> Str ''app'', ''DEBUG'' \<mapsto> Str ''maybe'']) None = Inr r
       \<and> (success r \<longleftrightarrow> errors r = []) \<and> (hasErrors r \<longleftrightarrow> errors r \<noteq> [])
       \<and> (data r \<noteq> None \<longleftrightarrow> errors r = [])
       \<and> \<not> success r \<and> data r = None \<and> length (errors r) = 1"
proof -
  let ?r = "\<lparr> success = False, data = None,
               errors = [\<lparr> err_field = ''value'', err_message = ''Cannot coerce to boolean'',
                           err_value = Str ''maybe'',
                           err_expected = Some ''true/false/1/0/yes/no/on/off'',
                           err_received = Some ''maybe'', err_envVarName = ''TypeError'',
                           err_type = FormatError \<rparr>],
               hasErrors = True \<rparr>"
  have run: "validateEnv test_host two_fields
               (Some [''NAME'' \<mapsto> Str ''app'', ''DEBUG'' \<mapsto> Str ''maybe'']) None = Inr ?r"
    by code_simp
  from validateEnv_result_shape [OF run] run show ?thesis by simp
qed

section \<open>Problems at validation time are collected, not thrown\<close>

lemma process_field_returns:
  assumes "\<not> calls_throwing_default ovs env entry"
  shows "\<exists>st'. process_field P ovs env entry st = Inr st'"
  using assms
  by (auto simp add: process_field_def Let_def calls_throwing_default_def producer_throws_def
           split: js_default.splits sum.splits)

lemma process_field_throws:
  assumes "calls_throwing_default ovs env entry"
  shows "\<exists>e. process_field P ovs env entry st = Inl e"
  using assms
  by (auto simp add: process_field_def Let_def calls_throwing_default_def producer_throws_def
           split: js_default.splits sum.splits)

lemma validate_fields_returns:
  assumes "\<forall>entry \<in> set fs. \<not> calls_throwing_default ovs env entry"
  shows "\<exists>st'. validate_fields P ovs env fs st = Inr st'"
  using assms
proof (induction fs arbitrary: st)
  case Nil
  then show ?case by simp
next
  case (Cons entry rest)
  then obtain st1 where "process_field P ovs env entry st = Inr st1"
    using process_field_returns [of ovs env entry P st] by auto
  with Cons show ?case by simp
qed

lemma validate_fields_throws:
  assumes "\<exists>entry \<in> set fs. calls_throwing_default ovs env entry"
  shows "\<exists>e. validate_fields P ovs env fs st = Inl e"
  using assms
proof (induction fs arbitrary: st)
  case Nil
  then show ?case by simp
next
  case (Cons entry rest)
  show ?case
  proof (cases "calls_throwing_default ovs env entry")
    case True
    from process_field_throws [OF this, of P st] show ?thesis by auto
  next
    case False
    from process_field_returns [OF this, of P st]
    obtain st1 where s1: "process_field P ovs env entry st = Inr st1" by blast
    from False Cons.prems have "\<exists>entry \<in> set rest. calls_throwing_default ovs env entry"
      by simp
    from Cons.IH [OF this, of st1] s1 show ?thesis by simp
  qed
qed

lemma concat_at_most_one:
  "(\<And>x. length (f x) \<le> 1) \<Longrightarrow> length (concat (map f xs)) \<le> length xs"
proof (induction xs)
  case Nil
  then show ?case by simp
next
  case (Cons x xs)
  have "length (f x) \<le> 1" by (rule Cons.prems)
  moreover have "length (concat (map f xs)) \<le> length xs"
    using Cons.IH Cons.prems by simp
  ultimately show ?case by simp
qed

lemma try_block_stages:
  "try_block P eff f n v st =
     (case coerce_stage P eff v of
        Inl e \<Rightarrow> push_error (caught_error e f n v) st
      | Inr c \<Rightarrow>
          (case transform_stage eff c of
             Inl e \<Rightarrow> push_error (transform_failed f n c e) st
           | Inr x \<Rightarrow> validate_stages P eff f n x st))"
  by (simp add: try_block_def coerce_stage_def transform_stage_def transform_failed_def
           split: sum.splits option.splits)

lemma validate_stages_outcome:
  "validate_stages P eff f n x st =
     (case builtInValidator P (cf_type eff) x of
        Inl e \<Rightarrow> push_error (caught_error e f n x) st
      | Inr b \<Rightarrow>
          if b \<noteq> Bool True then push_error (format_failed f n x b ''Validation failed'') st
          else
            case cf_validator eff of
              None \<Rightarrow> set_data f x st
            | Some g \<Rightarrow>
                (case g x of
                   Inl e \<Rightarrow> push_error (caught_error e f n x) st
                 | Inr b' \<Rightarrow>
                     if b' \<noteq> Bool True then
                       push_error (format_failed f n x b' ''Custom validation failed'') st
                     else set_data f x st))"
  by (simp add: validate_stages_def format_failed_def split: sum.splits option.splits)

lemma field_errors_working:
  assumes "working_value ovs env entry = Some w"
  shows "field_errors P ovs env entry =
           st_errors (try_block P (effective_schema ovs (fst entry) (snd entry)) (fst entry)
                        (toUpperCase (fst entry)) w \<lparr> st_errors = [], st_data = [] \<rparr>)"
  using assms
  by (auto simp add: field_errors_def process_field_def working_value_def Let_def
           split: if_splits js_default.splits sum.splits)

lemma stage_capture:
  assumes w: "working_value ovs env entry = Some w"
  defines "f \<equiv> fst entry"
    and "eff \<equiv> effective_schema ovs (fst entry) (snd entry)"
    and "n \<equiv> toUpperCase (fst entry)"
  shows "\<And>e. coerce_stage P eff w = Inl e \<Longrightarrow>
            field_errors P ovs env entry = [caught_error e f n w]"
    and "\<And>c e. coerce_stage P eff w = Inr c \<Longrightarrow> transform_stage eff c = Inl e \<Longrightarrow>
            field_errors P ovs env entry = [transform_failed f n c e]"
    and "\<And>c x e. coerce_stage P eff w = Inr c \<Longrightarrow> transform_stage eff c = Inr x \<Longrightarrow>
            builtInValidator P (cf_type eff) x = Inl e \<Longrightarrow>
            field_errors P ovs env entry = [caught_error e f n x]"
    and "\<And>c x b. coerce_stage P eff w = Inr c \<Longrightarrow> transform_stage eff c = Inr x \<Longrightarrow>
            builtInValidator P (cf_type eff) x = Inr b \<Longrightarrow> b \<noteq> Bool True \<Longrightarrow>
            field_errors P ovs env entry = [format_failed f n x b ''Validation failed'']"
    and "\<And>c x g e. coerce_stage P eff w = Inr c \<Longrightarrow> transform_stage eff c = Inr x \<Longrightarrow>
            builtInValidator P (cf_type eff) x = Inr (Bool True) \<Longrightarrow>
            cf_validator eff = Some g \<Longrightarrow> g x = Inl e \<Longrightarrow>
            field_errors P ovs env entry = [caught_error e f n x]"
    and "\<And>c x g b. coerce_stage P eff w = Inr c \<Longrightarrow> transform_stage eff c = Inr x \<Longrightarrow>
            builtInValidator P (cf_type eff) x = Inr (Bool True) \<Longrightarrow>
            cf_validator eff = Some g \<Longrightarrow> g x = Inr b \<Longrightarrow> b \<noteq> Bool True \<Longrightarrow>
            field_errors P ovs env entry = [format_failed f n x b ''Custom validation failed'']"
    and "\<And>c x. coerce_stage P eff w = Inr c \<Longrightarrow> transform_stage eff c = Inr x \<Longrightarrow>
            builtInValidator P (cf_type eff) x = Inr (Bool True) \<Longrightarrow>
            cf_validator eff = None \<or> (\<exists>g. cf_validator eff = Some g \<and> g x = Inr (Bool True)) \<Longrightarrow>
            field_errors P ovs env entry = []"
  unfolding field_errors_working [OF w] f_def eff_def n_def
  by (auto simp add: try_block_stages validate_stages_outcome push_error_def set_data_def)

text \<open>
  C6. Whatever the values, the transforms and the custom predicates do, a throw included,
  \<open>validateEnv\<close> returns a result, unless it calls a default producer that throws (that
  call is the one thing outside the \<open>try\<close>, and then \<open>validateEnv\<close> does throw). The error
  list of the result is, field after field in the order of the schema, what each field
  contributes; no field contributes more than one error, and what it contributes is in
  the list. For a field with a working value \<open>w\<close> the contribution is fixed by the first
  stage that fails: a throw of the coercion gives the entry of that exception; else a throw
  of the transform gives the \<open>TransformError\<close> with the coerced value; else a throw of the
  built-in validator gives the entry of that exception, and a result other than \<open>true\<close> the
  \<open>FormatError\<close> with its reason; else the same for the compiled validator; and a field
  that passes every stage contributes nothing.
\<close>

theorem validateEnv_never_throws:
  fixes P cs envVars environment
  defines "ovs \<equiv> select_overrides cs environment"
    and "env \<equiv> (case envVars of Some e \<Rightarrow> e | None \<Rightarrow> process_env P)"
  shows "((\<exists>r. validateEnv P cs envVars environment = Inr r) \<longleftrightarrow>
            (\<forall>entry \<in> set (cs_schema cs). \<not> calls_throwing_default ovs env entry))
       \<and> (\<forall>r. validateEnv P cs envVars environment = Inr r \<longrightarrow>
             errors r = concat (map (field_errors P ovs env) (cs_schema cs))
             \<and> length (errors r) \<le> length (cs_schema cs)
             \<and> (\<forall>entry \<in> set (cs_schema cs).
                   set (field_errors P ovs env entry) \<subseteq> set (errors r)))
       \<and> (\<forall>entry. length (field_errors P ovs env entry) \<le> 1)
       \<and> (\<forall>entry w. working_value ovs env entry = Some w \<longrightarrow>
            (let f = fst entry;
                 eff = effective_schema ovs (fst entry) (snd entry);
                 n = toUpperCase (fst entry)
             in (\<forall>e. coerce_stage P eff w = Inl e \<longrightarrow>
                   field_errors P ovs env entry = [caught_error e f n w])
              \<and> (\<forall>c e. coerce_stage P eff w = Inr c \<and> transform_stage eff c = Inl e \<longrightarrow>
                   field_errors P ovs env entry = [transform_failed f n c e])
              \<and> (\<forall>c x e. coerce_stage P eff w = Inr c \<and> transform_stage eff c = Inr x
                     \<and> builtInValidator P (cf_type eff) x = Inl e \<longrightarrow>
                   field_errors P ovs env entry = [caught_error e f n x])
              \<and> (\<forall>c x b. coerce_stage P eff w = Inr c \<and> transform_stage eff c = Inr x
                     \<and> builtInValidator P (cf_type eff) x = Inr b \<and> b \<noteq> Bool True \<longrightarrow>
                   field_errors P ovs env entry = [format_failed f n x b ''Validation failed''])
              \<and> (\<forall>c x g e. coerce_stage P eff w = Inr c \<and> transform_stage eff c = Inr x
                     \<and> builtInValidator P (cf_type eff) x = Inr (Bool True)
                     \<and> cf_validator eff = Some g \<and> g x = Inl e \<longrightarrow>
                   field_errors P ovs env entry = [caught_error e f n x])
              \<and> (\<forall>c x g b. coerce_stage P eff w = Inr c \<and> transform_stage eff c = Inr x
                     \<and> builtInValidator P (cf_type eff) x = Inr (Bool True)
                     \<and> cf_validator eff = Some g \<and> g x = Inr b \<and> b \<noteq> Bool True \<longrightarrow>
                   field_errors P ovs env entry =
                     [format_failed f n x b ''Custom validation failed''])
              \<and> (\<forall>c x. coerce_stage P eff w = Inr c \<and> transform_stage eff c = Inr x
                     \<and> builtInValidator P (cf_type eff) x = Inr (Bool True)
                     \<and> (cf_validator eff = None
                          \<or> (\<exists>g. cf_validator eff = Some g \<and> g x = Inr (Bool True))) \<longrightarrow>
                   field_errors P ovs env entry = [])))"
proof -
  let ?st0 = "\<lparr> st_errors = [], st_data = [] \<rparr>"
  have unfold: "validateEnv P cs envVars environment =
                  (case validate_fields P ovs env (cs_schema cs) ?st0 of
                     Inl e \<Rightarrow> Inl e
                   | Inr st \<Rightarrow>
                       Inr \<lparr> success = (length (st_errors st) = 0),
                             data = (if length (st_errors st) = 0 then Some (st_data st)
                                     else None),
                             errors = st_errors st,
                             hasErrors = (length (st_errors st) > 0) \<rparr>)"
    by (simp add: validateEnv_def Let_def ovs_def env_def)
  have one: "\<forall>entry. length (field_errors P ovs env entry) \<le> 1"
    by (intro allI) (rule field_errors_at_most_one)
  have returns: "(\<exists>r. validateEnv P cs envVars environment = Inr r) \<longleftrightarrow>
                   (\<forall>entry \<in> set (cs_schema cs). \<not> calls_throwing_default ovs env entry)"
  proof
    assume "\<exists>r. validateEnv P cs envVars environment = Inr r"
    then have ok: "\<exists>st. validate_fields P ovs env (cs_schema cs) ?st0 = Inr st"
      unfolding unfold by (auto split: sum.splits)
    show "\<forall>entry \<in> set (cs_schema cs). \<not> calls_throwing_default ovs env entry"
    proof (rule ccontr)
      assume "\<not> (\<forall>entry \<in> set (cs_schema cs). \<not> calls_throwing_default ovs env entry)"
      then have "\<exists>entry \<in> set (cs_schema cs). calls_throwing_default ovs env entry"
        by simp
      from validate_fields_throws [OF this, of P ?st0] ok show False by auto
    qed
  next
    assume "\<forall>entry \<in> set (cs_schema cs). \<not> calls_throwing_default ovs env entry"
    from validate_fields_returns [OF this, of P ?st0]
    show "\<exists>r. validateEnv P cs envVars environment = Inr r"
      unfolding unfold by auto
  qed
  have shape: "\<forall>r. validateEnv P cs envVars environment = Inr r \<longrightarrow>
                 errors r = concat (map (field_errors P ovs env) (cs_schema cs))
                 \<and> length (errors r) \<le> length (cs_schema cs)
                 \<and> (\<forall>entry \<in> set (cs_schema cs).
                       set (field_errors P ovs env entry) \<subseteq> set (errors r))"
  proof (intro allI impI)
    fix r
    assume r: "validateEnv P cs envVars environment = Inr r"
    then obtain st where run: "validate_fields P ovs env (cs_schema cs) ?st0 = Inr st"
      and errs: "errors r = st_errors st"
      unfolding unfold by (auto split: sum.splits)
    have e: "st_errors st = concat (map (field_errors P ovs env) (cs_schema cs))"
      using validate_fields_errors [OF run] by simp
    have "length (st_errors st) \<le> length (cs_schema cs)"
      unfolding e by (rule concat_at_most_one) (rule field_errors_at_most_one)
    moreover have "\<forall>entry \<in> set (cs_schema cs).
                     set (field_errors P ovs env entry) \<subseteq> set (st_errors st)"
      unfolding e by auto
    ultimately
    show "errors r = concat (map (field_errors P ovs env) (cs_schema cs))
          \<and> length (errors r) \<le> length (cs_schema cs)
          \<and> (\<forall>entry \<in> set (cs_schema cs).
                set (field_errors P ovs env entry) \<subseteq> set (errors r))"
      using e errs by simp
  qed
  have stages: "\<forall>entry w. working_value ovs env entry = Some w \<longrightarrow>
            (let f = fst entry;
                 eff = effective_schema ovs (fst entry) (snd entry);
                 n = toUpperCase (fst entry)
             in (\<forall>e. coerce_stage P eff w = Inl e \<longrightarrow>
                   field_errors P ovs env entry = [caught_error e f n w])
              \<and> (\<forall>c e. coerce_stage P eff w = Inr c \<and> transform_stage eff c = Inl e \<longrightarrow>
                   field_errors P ovs env entry = [transform_failed f n c e])
              \<and> (\<forall>c x e. coerce_stage P eff w = Inr c \<and> transform_stage eff c = Inr x
                     \<and> builtInValidator P (cf_type eff) x = Inl e \<longrightarrow>
                   field_errors P ovs env entry = [caught_error e f n x])
              \<and> (\<forall>c x b. coerce_stage P eff w = Inr c \<and> transform_stage eff c = Inr x
                     \<and> builtInValidator P (cf_type eff) x = Inr b \<and> b \<noteq> Bool True \<longrightarrow>
                   field_errors P ovs env entry = [format_failed f n x b ''Validation failed''])
              \<and> (\<forall>c x g e. coerce_stage P eff w = Inr c \<and> transform_stage eff c = Inr x
                     \<and> builtInValidator P (cf_type eff) x = Inr (Bool True)
                     \<and> cf_validator eff = Some g \<and> g x = Inl e \<longrightarrow>
                   field_errors P ovs env entry = [caught_error e f n x])
              \<and> (\<forall>c x g b. coerce_stage P eff w = Inr c \<and> transform_stage eff c = Inr x
                     \<and> builtInValidator P (cf_type eff) x = Inr (Bool True)
                     \<and> cf_validator eff = Some g \<and> g x = Inr b \<and> b \<noteq> Bool True \<longrightarrow>
                   field_errors P ovs env entry =
                     [format_failed f n x b ''Custom validation failed''])
              \<and> (\<forall>c x. coerce_stage P eff w = Inr c \<and> transform_stage eff c = Inr x
                     \<and> builtInValidator P (cf_type eff) x = Inr (Bool True)
                     \<and> (cf_validator eff = None
                          \<or> (\<exists>g. cf_validator eff = Some g \<and> g x = Inr (Bool True))) \<longrightarrow>
                   field_errors P ovs env entry = []))"
  proof (intro allI impI)
    fix entry w
    assume w: "working_value ovs env entry = Some w"
    note sc = stage_capture [OF w, of P]
    show "let f = fst entry;
              eff = effective_schema ovs (fst entry) (snd entry);
              n = toUpperCase (fst entry)
          in (\<forall>e. coerce_stage P eff w = Inl e \<longrightarrow>
                   field_errors P ovs env entry = [caught_error e f n w])
              \<and> (\<forall>c e. coerce_stage P eff w = Inr c \<and> transform_stage eff c = Inl e \<longrightarrow>
                   field_errors P ovs env entry = [transform_failed f n c e])
              \<and> (\<forall>c x e. coerce_stage P eff w = Inr c \<and> transform_stage eff c = Inr x
                     \<and> builtInValidator P (cf_type eff) x = Inl e \<longrightarrow>
                   field_errors P ovs env entry = [caught_error e f n x])
              \<and> (\<forall>c x b. coerce_stage P eff w = Inr c \<and> transform_stage eff c = Inr x
                     \<and> builtInValidator P (cf_type eff) x = Inr b \<and> b \<noteq> Bool True \<longrightarrow>
                   field_errors P ovs env entry = [format_failed f n x b ''Validation failed''])
              \<and> (\<forall>c x g e. coerce_stage P eff w = Inr c \<and> transform_stage eff c = Inr x
                     \<and> builtInValidator P (cf_type eff) x = Inr (Bool True)
                     \<and> cf_validator eff = Some g \<and> g x = Inl e \<longrightarrow>
                   field_errors P ovs env entry = [caught_error e f n x])
              \<and> (\<forall>c x g b. coerce_stage P eff w = Inr c \<and> transform_stage eff c = Inr x
                     \<and> builtInValidator P (cf_type eff) x = Inr (Bool True)
                     \<and> cf_validator eff = Some g \<and> g x = Inr b \<and> b \<noteq> Bool True \<longrightarrow>
                   field_errors P ovs env entry =
                     [format_failed f n x b ''Custom validation failed''])
              \<and> (\<forall>c x. coerce_stage P eff w = Inr c \<and> transform_stage eff c = Inr x
                     \<and> builtInValidator P (cf_type eff) x = Inr (Bool True)
                     \<and> (cf_validator eff = None
                          \<or> (\<exists>g. cf_validator eff = Some g \<and> g x = Inr (Bool True))) \<longrightarrow>
                   field_errors P ovs env entry = [])"
      unfolding Let_def
      apply (intro conjI allI impI)
            apply (erule sc(1))
           apply (elim conjE, erule (1) sc(2))
          apply (elim conjE, erule (2) sc(3))
         apply (elim conjE, erule (3) sc(4))
        apply (elim conjE, erule (4) sc(5))
       apply (elim conjE, erule (5) sc(6))
      apply (elim conjE, erule (3) sc(7))
      done
  qed
  from returns shape one stages show ?thesis by blast
qed

text \<open>The five problems of \<open>five_problems\<close> give five errors in the order of the fields.\<close>

theorem validateEnv_never_throws_witness:
  "\<exists>r. validateEnv test_host five_problems (Some five_values) None = Inr r
       \<and> length (errors r) \<le> length (cs_schema five_problems)
       \<and> map err_type (errors r) =
           [FormatError, TransformError, FormatError, TypeError, FormatError]
       \<and> map err_message (errors r) =
           [''Cannot coerce to boolean'', ''Transform failed: boom'', ''Invalid URL format'',
            ''broken'', ''Custom validation failed'']"
proof -
  have no_throw: "\<forall>entry \<in> set (cs_schema five_problems).
             \<not> calls_throwing_default (select_overrides five_problems None)
                 (case Some five_values of Some e \<Rightarrow> e | None \<Rightarrow> process_env test_host) entry"
    by (simp add: five_problems_def select_overrides_def effective_schema_def spread_def
                  compile_field_def plain_field_def producer_throws_def Let_def
                  calls_throwing_default_def)
  note T = validateEnv_never_throws [of test_host five_problems "Some five_values" None]
  from T no_throw
  obtain r where r: "validateEnv test_host five_problems (Some five_values) None = Inr r"
    by blast
  with T have len: "length (errors r) \<le> length (cs_schema five_problems)"
    by blast
  have types: "map err_type (errors (projr (validateEnv test_host five_problems
                                               (Some five_values) None))) =
                 [FormatError, TransformError, FormatError, TypeError, FormatError]"
    by code_simp
  have msgs: "map err_message (errors (projr (validateEnv test_host five_problems
                                               (Some five_values) None))) =
                 [''Cannot coerce to boolean'', ''Transform failed: boom'', ''Invalid URL format'',
                  ''broken'', ''Custom validation failed'']"
    by code_simp
  from r len types msgs show ?thesis by simp
qed

section \<open>Environment overrides\<close>

lemma upper_DATABASE_URL: "toUpperCase ''DATABASE_URL'' = ''DATABASE_URL''"
  by (simp add: toUpperCase_def upper_char_def)

text \<open>
  C7. A schema whose one field \<open>DATABASE_URL\<close> is optional and has no default, with an
  override for \<open>production\<close> that sets \<open>required\<close> to true, and an environment map without
  \<open>DATABASE_URL\<close>: under \<open>production\<close> the result is the one \<open>RequiredError\<close>; with no
  environment name, or a name that has no override block, it is a success whose data do
  not have the field.
\<close>

theorem environment_override_required:
  assumes compiled: "defineSchema P \<lparr> sw_fields = [(''DATABASE_URL'', Definition fd)],
                                      sw_environments = Some envs \<rparr> = Inr cs"
    and optional: "fd_required fd \<noteq> Some True"
    and nodefault: "fd_default fd = DefaultValue Undefined"
    and prod: "envs ''production'' = Some block" "block ''DATABASE_URL'' = Some ov"
              "ov_required ov = Some True"
    and absent: "env_lookup env ''DATABASE_URL'' = Undefined"
    and other: "environment = None \<or> (\<exists>e. environment = Some e \<and> envs e = None)"
  shows "validateEnv P cs (Some env) (Some ''production'') =
           Inr \<lparr> success = False, data = None,
                 errors = [\<lparr> err_field = ''DATABASE_URL'',
                             err_message = ''Required environment variable '' @ [CHR 0x22]
                                             @ ''DATABASE_URL'' @ [CHR 0x22] @ '' is missing'',
                             err_value = Undefined, err_expected = None, err_received = None,
                             err_envVarName = ''DATABASE_URL'', err_type = RequiredError \<rparr>],
                 hasErrors = True \<rparr>
         \<and> validateEnv P cs (Some env) environment =
           Inr \<lparr> success = True, data = Some [], errors = [], hasErrors = False \<rparr>"
proof -
  from compiled obtain ty where ty: "fd_type fd = Some ty"
    and cs: "cs = \<lparr> cs_schema = [(''DATABASE_URL'', compile_field P fd ty)],
                    cs_environments = Some envs \<rparr>"
    by (auto simp add: defineSchema_def split: option.splits sum.splits)
  have req: "cf_required (compile_field P fd ty) = False"
    using optional by (cases "fd_required fd") (auto simp add: compile_field_def Let_def)
  have dflt: "cf_default (compile_field P fd ty) = DefaultValue Undefined"
    using nodefault by (simp add: compile_field_def Let_def)
  have sel_prod: "select_overrides cs (Some ''production'') = block"
    using prod by (simp add: select_overrides_def cs)
  have sel_other: "select_overrides cs environment ''DATABASE_URL'' = None"
    using other by (auto simp add: select_overrides_def cs)
  have 1: "process_field P block env (''DATABASE_URL'', compile_field P fd ty)
             \<lparr> st_errors = [], st_data = [] \<rparr> =
           Inr \<lparr> st_errors = [\<lparr> err_field = ''DATABASE_URL'',
                             err_message = ''Required environment variable '' @ [CHR 0x22]
                                             @ ''DATABASE_URL'' @ [CHR 0x22] @ '' is missing'',
                             err_value = Undefined, err_expected = None, err_received = None,
                             err_envVarName = ''DATABASE_URL'', err_type = RequiredError \<rparr>],
                 st_data = [] \<rparr>"
    using prod absent
    by (simp add: process_field_def Let_def effective_schema_def object_assign_def
                  upper_DATABASE_URL push_error_def)
  have 2: "process_field P (select_overrides cs environment) env
             (''DATABASE_URL'', compile_field P fd ty) \<lparr> st_errors = [], st_data = [] \<rparr> =
           Inr \<lparr> st_errors = [], st_data = [] \<rparr>"
    using sel_other absent req dflt
    by (simp add: process_field_def Let_def effective_schema_def spread_def upper_DATABASE_URL)
  show ?thesis
    using 1 2 sel_prod by (simp add: validateEnv_def Let_def cs)
qed

theorem environment_override_required_witness:
  "validateEnv test_host database_compiled (Some Map.empty) (Some ''production'') =
     Inr \<lparr> success = False, data = None,
           errors = [\<lparr> err_field = ''DATABASE_URL'',
                       err_message = ''Required environment variable '' @ [CHR 0x22]
                                       @ ''DATABASE_URL'' @ [CHR 0x22] @ '' is missing'',
                       err_value = Undefined, err_expected = None, err_received = None,
                       err_envVarName = ''DATABASE_URL'', err_type = RequiredError \<rparr>],
           hasErrors = True \<rparr>
   \<and> validateEnv test_host database_compiled (Some Map.empty) (Some ''staging'') =
     Inr \<lparr> success = True, data = Some [], errors = [], hasErrors = False \<rparr>"
proof -
  have compiled: "defineSchema test_host
                    \<lparr> sw_fields = [(''DATABASE_URL'',
                                     Definition ((plain_field T_url) \<lparr> fd_required := Some False \<rparr>))],
                      sw_environments = Some database_overrides \<rparr> = Inr database_compiled"
    by (simp add: defineSchema_def database_compiled_def plain_field_def)
  show ?thesis
    by (rule environment_override_required [OF compiled, where block =
          "[''DATABASE_URL'' \<mapsto> no_override \<lparr> ov_required := Some True \<rparr>]"
          and ov = "no_override \<lparr> ov_required := Some True \<rparr>"])
       (simp_all add: plain_field_def database_overrides_def no_override_def env_lookup_def)
qed

section \<open>An override cannot replace the custom predicate\<close>

lemma validate_stages_ignores_validate:
  "validate_stages P (eff \<lparr> eff_validate := x \<rparr>) f n v st = validate_stages P eff f n v st"
  by (simp add: validate_stages_def split: sum.splits)

lemma try_block_ignores_validate:
  "try_block P (eff \<lparr> eff_validate := x \<rparr>) f n v st = try_block P eff f n v st"
  by (simp add: try_block_def validate_stages_ignores_validate split: sum.splits option.splits)

lemma effective_schema_cong:
  assumes "same_but_validate (ovs f) (ovs' f)"
  shows "(effective_schema ovs f fs) \<lparr> eff_validate := None \<rparr> =
         (effective_schema ovs' f fs) \<lparr> eff_validate := None \<rparr>"
proof -
  have strip: "\<And>t ov. (object_assign t ov) \<lparr> eff_validate := None \<rparr> =
                 (object_assign t (ov \<lparr> ov_validate := None \<rparr>)) \<lparr> eff_validate := None \<rparr>"
    by (simp add: object_assign_def)
  have empty: "object_assign (spread fs) no_override = spread fs"
    by (simp add: object_assign_def spread_def no_override_def)
  have eff: "\<And>m. (effective_schema m f fs) \<lparr> eff_validate := None \<rparr> =
               (object_assign (spread fs)
                  ((case m f of Some x \<Rightarrow> x | None \<Rightarrow> no_override) \<lparr> ov_validate := None \<rparr>))
                 \<lparr> eff_validate := None \<rparr>"
    using strip empty by (simp add: effective_schema_def split: option.splits)
  from assms show ?thesis
    by (simp only: eff same_but_validate_def)
qed

lemma process_field_reads:
  "process_field P ovs env entry st =
     (let fieldName = fst entry;
          eff = (effective_schema ovs fieldName (snd entry)) \<lparr> eff_validate := None \<rparr>;
          envVarName = toUpperCase fieldName;
          v = env_lookup env envVarName
      in if v = Undefined then
           if cf_required eff then
             Inr (push_error
                    \<lparr> err_field = fieldName,
                      err_message = ''Required environment variable '' @ [CHR 0x22] @ envVarName
                                      @ [CHR 0x22] @ '' is missing'',
                      err_value = Undefined,
                      err_expected = None,
                      err_received = None,
                      err_envVarName = envVarName,
                      err_type = RequiredError \<rparr> st)
           else if cf_default eff \<noteq> DefaultValue Undefined then
             (case cf_default eff of
                DefaultProducer call \<Rightarrow>
                  (case call of
                     Inl e \<Rightarrow> Inl e
                   | Inr d \<Rightarrow> Inr (try_block P eff fieldName envVarName d st))
              | DefaultValue d \<Rightarrow> Inr (try_block P eff fieldName envVarName d st))
           else Inr st
         else Inr (try_block P eff fieldName envVarName v st))"
  by (simp add: process_field_def Let_def try_block_ignores_validate
           split: js_default.splits sum.splits)

lemma process_field_cong:
  assumes "same_but_validate (ovs (fst entry)) (ovs' (fst entry))"
  shows "process_field P ovs env entry st = process_field P ovs' env entry st"
proof -
  have e: "(effective_schema ovs (fst entry) (snd entry)) \<lparr> eff_validate := None \<rparr> =
           (effective_schema ovs' (fst entry) (snd entry)) \<lparr> eff_validate := None \<rparr>"
    using assms by (rule effective_schema_cong)
  show ?thesis by (simp only: process_field_reads Let_def e)
qed

lemma validate_fields_cong:
  assumes "\<And>f. same_but_validate (ovs f) (ovs' f)"
  shows "validate_fields P ovs env fs st = validate_fields P ovs' env fs st"
proof (induction fs arbitrary: st)
  case Nil
  show ?case by simp
next
  case (Cons entry rest)
  have "process_field P ovs env entry st = process_field P ovs' env entry st"
    using assms by (rule process_field_cong)
  with Cons.IH show ?case by (simp split: sum.splits)
qed

text \<open>
  C10. The key \<open>validate\<close> of an override does not reach the result: whatever it holds
  (\<open>x\<close>), the result is the one for the same override without the key; and for an override
  that has this key only, it is the result for no override of the field at all.
\<close>

theorem override_validate_has_no_effect:
  "validateEnv P
     (cs \<lparr> cs_environments :=
             Some (envs(name \<mapsto> block(field \<mapsto> ov \<lparr> ov_validate := x \<rparr>))) \<rparr>)
     envVars environment =
   validateEnv P
     (cs \<lparr> cs_environments :=
             Some (envs(name \<mapsto> block(field \<mapsto> ov \<lparr> ov_validate := None \<rparr>))) \<rparr>)
     envVars environment
   \<and>
   validateEnv P
     (cs \<lparr> cs_environments :=
             Some (envs(name \<mapsto> block(field \<mapsto> no_override \<lparr> ov_validate := x \<rparr>))) \<rparr>)
     envVars environment =
   validateEnv P
     (cs \<lparr> cs_environments := Some (envs(name \<mapsto> block(field := None))) \<rparr>)
     envVars environment"
proof -
  let ?a = "cs \<lparr> cs_environments :=
                   Some (envs(name \<mapsto> block(field \<mapsto> ov \<lparr> ov_validate := x \<rparr>))) \<rparr>"
  let ?b = "cs \<lparr> cs_environments :=
                   Some (envs(name \<mapsto> block(field \<mapsto> ov \<lparr> ov_validate := None \<rparr>))) \<rparr>"
  let ?c = "cs \<lparr> cs_environments :=
                   Some (envs(name \<mapsto> block(field \<mapsto> no_override \<lparr> ov_validate := x \<rparr>))) \<rparr>"
  let ?d = "cs \<lparr> cs_environments := Some (envs(name \<mapsto> block(field := None))) \<rparr>"
  have ab: "\<And>f. same_but_validate (select_overrides ?a environment f)
                                   (select_overrides ?b environment f)"
    by (simp add: same_but_validate_def select_overrides_def split: option.splits)
  have cd: "\<And>f. same_but_validate (select_overrides ?c environment f)
                                   (select_overrides ?d environment f)"
    by (simp add: same_but_validate_def select_overrides_def no_override_def
             split: option.splits)
  have 1: "validateEnv P ?a envVars environment = validateEnv P ?b envVars environment"
    using validate_fields_cong [of "select_overrides ?a environment"
                                   "select_overrides ?b environment", OF ab]
    by (simp add: validateEnv_def Let_def)
  have 2: "validateEnv P ?c envVars environment = validateEnv P ?d envVars environment"
    using validate_fields_cong [of "select_overrides ?c environment"
                                   "select_overrides ?d environment", OF cd]
    by (simp add: validateEnv_def Let_def)
  from 1 2 show ?thesis by simp
qed

text \<open>
  Under \<open>production\<close>, with an override whose \<open>validate\<close> lets nothing pass, the key
  \<open>secret\<close> is accepted all the same: the compiled predicate decides.
\<close>

theorem override_validate_has_no_effect_witness:
  "validateEnv test_host
     (api_key_compiled \<lparr> cs_environments :=
        Some (Map.empty(''production'' \<mapsto>
                Map.empty(''API_KEY'' \<mapsto> no_override \<lparr> ov_validate := Some (Some reject_all) \<rparr>))) \<rparr>)
     (Some [''API_KEY'' \<mapsto> Str ''secret'']) (Some ''production'') =
   Inr \<lparr> success = True, data = Some [(''API_KEY'', Str ''secret'')], errors = [],
         hasErrors = False \<rparr>"
proof -
  have plain: "validateEnv test_host
     (api_key_compiled \<lparr> cs_environments :=
        Some (Map.empty(''production'' \<mapsto> Map.empty(''API_KEY'' := None))) \<rparr>)
     (Some [''API_KEY'' \<mapsto> Str ''secret'']) (Some ''production'') =
   Inr \<lparr> success = True, data = Some [(''API_KEY'', Str ''secret'')], errors = [],
         hasErrors = False \<rparr>"
    by code_simp
  have step: "validateEnv test_host
     (api_key_compiled \<lparr> cs_environments :=
        Some (Map.empty(''production'' \<mapsto>
                Map.empty(''API_KEY'' \<mapsto> no_override \<lparr> ov_validate := Some (Some reject_all) \<rparr>))) \<rparr>)
     (Some [''API_KEY'' \<mapsto> Str ''secret'']) (Some ''production'') =
   validateEnv test_host
     (api_key_compiled \<lparr> cs_environments :=
        Some (Map.empty(''production'' \<mapsto> Map.empty(''API_KEY'' := None))) \<rparr>)
     (Some [''API_KEY'' \<mapsto> Str ''secret'']) (Some ''production'')"
    by (rule conjunct2 [OF override_validate_has_no_effect])
  from step plain show ?thesis by (rule trans)
qed

section \<open>The composed validator\<close>





text \<open>
  C4, the claim as it stands, fails: with \<open>enum: ['xyz']\<close> on the field, the value \<open>abc\<close>
  matches the pattern and the compiled validator does not return \<open>true\<close>.
\<close>

theorem regex_validator_counterexample:
  "map_option (\<lambda>test. test ''abc'') (fd_pattern key_field_enum) = Some True
   \<and> map_option (\<lambda>f. f (Str ''abc''))
        (cf_validator (compile_field test_host key_field_enum T_regex)) =
      Some (Inr (Str ''Value must be one of: xyz''))"
  by (simp add: key_field_enum_def key_field_def plain_field_def compile_field_def
                type_specific_def enum_layer_def array_join_def js_String_def)

text \<open>
  C4, amended. For a field of type \<open>regex\<close> with a pattern, the compiled validator is the
  pattern check of \<open>validateRegex\<close>, behind the enum check when the field has a non-empty
  enum. Without one it returns \<open>true\<close> on a string exactly when the pattern matches. In
  both cases the compiled field is the same whatever \<open>validate\<close> holds: the custom
  predicate is not part of it.
\<close>

theorem regex_validator:
  assumes "fd_pattern fd = Some pat"
  shows "\<exists>f. cf_validator (compile_field P fd T_regex) = Some f \<and>
           (\<forall>v. f v =
              (case fd_enum fd of
                 None \<Rightarrow> validateRegex v (Some pat)
               | Some es \<Rightarrow>
                   if es \<noteq> [] \<and> v \<notin> set es then Inr (enum_message P es)
                   else validateRegex v (Some pat)))
           \<and> (fd_enum fd = None \<or> fd_enum fd = Some [] \<longrightarrow>
                 (\<forall>s. f (Str s) = Inr (Bool True) \<longleftrightarrow> pat s))
           \<and> compile_field P (fd \<lparr> fd_validate := q \<rparr>) T_regex = compile_field P fd T_regex"
proof -
  have ts: "\<And>c. type_specific P fd T_regex c = Some (\<lambda>v. validateRegex v (Some pat))"
    using assms by (simp add: type_specific_def)
  have same: "compile_field P (fd \<lparr> fd_validate := q \<rparr>) T_regex = compile_field P fd T_regex"
    using assms by (simp add: compile_field_def Let_def type_specific_def)
  have str: "\<And>s. validateRegex (Str s) (Some pat) = Inr (Bool True) \<longleftrightarrow> pat s"
    by (simp add: validateRegex_def)
  show ?thesis
  proof (cases "fd_enum fd")
    case None
    then show ?thesis
      using same str by (simp add: compile_field_def Let_def ts)
  next
    case (Some es)
    then show ?thesis
      using same str
      by (cases "es = []")
         (simp_all add: compile_field_def Let_def ts enum_layer_def enum_message_def)
  qed
qed

text \<open>The field of \<open>key_field\<close> accepts \<open>abc\<close>, which its custom predicate refuses.\<close>

theorem regex_validator_witness:
  "\<exists>f. cf_validator (compile_field test_host key_field T_regex) = Some f
       \<and> f (Str ''abc'') = Inr (Bool True)
       \<and> f (Str ''abd'') = Inr (Str ''Value does not match the required pattern'')
       \<and> refuse (Str ''abc'') = Inr (Str ''custom says no'')"
proof -
  have pat: "fd_pattern key_field = Some (\<lambda>s. s = ''abc'')"
    by (simp add: key_field_def plain_field_def)
  have none: "fd_enum key_field = None"
    by (simp add: key_field_def plain_field_def)
  from regex_validator [OF pat, of test_host]
  obtain f where f: "cf_validator (compile_field test_host key_field T_regex) = Some f"
    and chain: "\<And>v. f v =
              (case fd_enum key_field of
                 None \<Rightarrow> validateRegex v (Some (\<lambda>s. s = ''abc''))
               | Some es \<Rightarrow>
                   if es \<noteq> [] \<and> v \<notin> set es then Inr (enum_message test_host es)
                   else validateRegex v (Some (\<lambda>s. s = ''abc'')))"
    by blast
  have 1: "f (Str ''abc'') = Inr (Bool True)"
    by (simp add: chain none validateRegex_def)
  have 2: "f (Str ''abd'') = Inr (Str ''Value does not match the required pattern'')"
    by (simp add: chain none validateRegex_def)
  have 3: "refuse (Str ''abc'') = Inr (Str ''custom says no'')"
    by (simp add: refuse_def)
  from f 1 2 3 show ?thesis by simp
qed

section \<open>Defaults\<close>




section \<open>The name of the variable in an error\<close>

text \<open>
  C2 at the input \<open>{ port: { type: 'number' } }\<close>, \<open>{ PORT: 'abc' }\<close>: the one error comes from
  the \<open>ValidationError\<close> that \<open>coerceValue\<close> throws, and the \<open>catch\<close> copies its fields. Its
  \<open>envVarName\<close> is \<open>'TypeError'\<close>, the sixth argument of the constructor call, and not \<open>PORT\<close>.
\<close>

theorem coercion_error_envVarName:
  "toUpperCase ''port'' = ''PORT''
   \<and> validateEnv test_host port_compiled (Some [''PORT'' \<mapsto> Str ''abc'']) None =
     Inr \<lparr> success = False, data = None,
           errors = [\<lparr> err_field = ''value'', err_message = ''Cannot coerce to number'',
                       err_value = Str ''abc'', err_expected = Some ''numeric string'',
                       err_received = Some ''abc'', err_envVarName = ''TypeError'',
                       err_type = FormatError \<rparr>],
           hasErrors = True \<rparr>"
  by code_simp

section \<open>Numbers from strings\<close>

subsection \<open>The prefix that \<open>parseFloat\<close> reads\<close>










subsection \<open>Values from \<open>2 ^ 1024\<close> round to infinity\<close>










subsection \<open>Some doubles and some texts\<close>











subsection \<open>The claim\<close>








section \<open>The protocol of a URL\<close>

text \<open>
  C9. On a host whose \<open>URL\<close> gives every URL it parses a protocol that is not empty (the
  scheme and a colon), \<open>validateUrl\<close> never returns the reason that asks for a protocol, and
  its result does not depend on \<open>requireProtocol\<close>.
\<close>

theorem validateUrl_protocol_message_unreachable:
  assumes "\<forall>s u. URL_parse P s = Some u \<longrightarrow> url_protocol u \<noteq> []"
  shows "validateUrl P v options \<noteq> Str ''URL must include protocol (http://, https://, etc.)''
       \<and> validateUrl P v (Some \<lparr> protocols = ps, requireProtocol = rp \<rparr>) =
           validateUrl P v (Some \<lparr> protocols = ps, requireProtocol = rp' \<rparr>)
       \<and> validateUrl P v (Some \<lparr> protocols = None, requireProtocol = rp \<rparr>) =
           validateUrl P v None"
  using assms
  by (auto simp add: validateUrl_def Let_def split: jsval.splits option.splits)

lemma simple_url_protocol: "\<forall>s u. URL_parse test_host s = Some u \<longrightarrow> url_protocol u \<noteq> []"
  by (auto simp add: test_host_def simple_url_def Let_def split: if_splits)

theorem validateUrl_protocol_message_unreachable_witness:
  "validateUrl test_host (Str ''mailto://a.example'')
       (Some \<lparr> protocols = Some [[], ''mailto:''], requireProtocol = Some True \<rparr>) \<noteq>
     Str ''URL must include protocol (http://, https://, etc.)''
   \<and> validateUrl test_host (Str ''mailto://a.example'')
        (Some \<lparr> protocols = Some [[], ''mailto:''], requireProtocol = Some True \<rparr>) =
      validateUrl test_host (Str ''mailto://a.example'')
        (Some \<lparr> protocols = Some [[], ''mailto:''], requireProtocol = Some False \<rparr>)"
  using validateUrl_protocol_message_unreachable
          [OF simple_url_protocol, of "Str ''mailto://a.example''" _ "Some [[], ''mailto:'']"
              "Some True" "Some False"]
  by blast

end
